theory Spec2Isabelle
  imports Main
begin

section \<open>JavaScript values\<close>

text \<open>
  The values the client and the Auth component handle. A plain object is the list of
  its own enumerable properties, of distinct names, in enumeration order (the order of
  \<open>for (field in data)\<close> and of \<open>JSON.stringify\<close>); a property is read with
  \<open>map_of\<close>. Numbers are the
  integers below \<open>2^53\<close> in magnitude, which a double holds exactly (time values,
  epoch seconds, counters), and \<open>NaN\<close>; a Date
  carries its time value in milliseconds, \<open>None\<close> for an Invalid Date (time value NaN).
  A Blob carries its media type, a File (which is a Blob) its name and media type; an
  HTMLInputElement carries its \<open>value\<close> and its \<open>files\<close>, an HTMLCanvasElement the data
  URL that \<open>toDataURL()\<close> returns.
\<close>

datatype blob = Blob string | File string string

datatype form_entry = TextEntry string string | FileEntry string blob string

datatype jsval =
    Undefined
  | Null
  | Bool bool
  | Num int
  | NaN
  | Str string
  | Obj "(string \<times> jsval) list"
  | Arr "jsval list"
  | Date "int option"
  | FormData "form_entry list"
  | InputElement string "blob list"
  | CanvasElement string
  | BlobV blob

datatype error = Error string | TypeError | SyntaxError

text \<open>\<open>blob.type\<close> and \<open>file.name\<close> (\<open>undefined\<close> on a Blob that is not a File).\<close>

fun blob_type :: "blob \<Rightarrow> string" where
  "blob_type (Blob t) = t"
| "blob_type (File n t) = t"

fun blob_name :: "blob \<Rightarrow> string option" where
  "blob_name (Blob t) = None"
| "blob_name (File n t) = Some n"

text \<open>The conversion to boolean of \<open>if (data)\<close>, \<open>!data\<close>, \<open>a || b\<close>.\<close>

fun truthy :: "jsval \<Rightarrow> bool" where
  "truthy Undefined = False"
| "truthy Null = False"
| "truthy (Bool b) = b"
| "truthy (Num n) = (n \<noteq> 0)"
| "truthy NaN = False"
| "truthy (Str s) = (s \<noteq> [])"
| "truthy v = True"

fun typeof :: "jsval \<Rightarrow> string" where
  "typeof Undefined = ''undefined''"
| "typeof Null = ''object''"
| "typeof (Bool b) = ''boolean''"
| "typeof (Num n) = ''number''"
| "typeof NaN = ''number''"
| "typeof (Str s) = ''string''"
| "typeof v = ''object''"

text \<open>
  Reading a property \<open>v.k\<close>: a TypeError on \<open>undefined\<close> and \<open>null\<close>, the own property of
  a plain object, and \<open>undefined\<close> on every other value (the code reads only \<open>token\<close>,
  \<open>expire_at\<close>, \<open>password\<close> and \<open>_id\<close>, which no built-in prototype defines).
\<close>

fun get_prop :: "jsval \<Rightarrow> string \<Rightarrow> error + jsval" where
  "get_prop Undefined k = Inl TypeError"
| "get_prop Null k = Inl TypeError"
| "get_prop (Obj fs) k = (case map_of fs k of None \<Rightarrow> Inr Undefined | Some v \<Rightarrow> Inr v)"
| "get_prop v k = Inr Undefined"

text \<open>\<open>delete v.k\<close>.\<close>

fun delete_prop :: "jsval \<Rightarrow> string \<Rightarrow> jsval" where
  "delete_prop (Obj fs) k = Obj (filter (\<lambda>kv. fst kv \<noteq> k) fs)"
| "delete_prop v k = v"

subsection \<open>Numbers and strings\<close>

definition digit_char :: "nat \<Rightarrow> char" where
  "digit_char d = ''0123456789'' ! d"

fun show_nat :: "nat \<Rightarrow> string" where
  "show_nat n = (if n < 10 then [digit_char n] else show_nat (n div 10) @ [digit_char (n mod 10)])"

declare show_nat.simps [simp del]

text \<open>
  \<open>Number.prototype.toString\<close> on an integer: its decimal digits. This is what
  JavaScript prints for the integers that a double holds exactly, those below \<open>2^53\<close>
  in magnitude, which include every time value and every count of epoch seconds.
\<close>

definition show_int :: "int \<Rightarrow> string" where
  "show_int i = (if i < 0 then CHR ''-'' # show_nat (nat (- i)) else show_nat (nat i))"

text \<open>
  \<open>Math.round(t / 1000)\<close> on an integer time value \<open>t\<close>: the nearest integer, a tie
  going up. Time values are at most \<open>8.64 * 10^15\<close> in magnitude, where the double
  quotient lies on the same side of every half-integer as the exact one.
\<close>

definition round_seconds :: "int \<Rightarrow> int" where
  "round_seconds t = (t + 500) div 1000"

definition hex_char :: "nat \<Rightarrow> char" where
  "hex_char d = ''0123456789abcdef'' ! d"

definition upper_hex_char :: "nat \<Rightarrow> char" where
  "upper_hex_char d = ''0123456789ABCDEF'' ! d"

text \<open>\<open>QuoteJSONString\<close> of \<open>JSON.stringify\<close>.\<close>

definition json_escape :: "char \<Rightarrow> string" where
  "json_escape c =
     (if c = CHR 0x22 then [CHR 0x5C, CHR 0x22]
      else if c = CHR 0x5C then [CHR 0x5C, CHR 0x5C]
      else if c = CHR 0x08 then [CHR 0x5C, CHR ''b'']
      else if c = CHR 0x09 then [CHR 0x5C, CHR ''t'']
      else if c = CHR 0x0A then [CHR 0x5C, CHR ''n'']
      else if c = CHR 0x0C then [CHR 0x5C, CHR ''f'']
      else if c = CHR 0x0D then [CHR 0x5C, CHR ''r'']
      else if (of_char c :: nat) < 32
        then [CHR 0x5C, CHR ''u'', CHR ''0'', CHR ''0'',
              hex_char (of_char c div 16), hex_char (of_char c mod 16)]
      else [c])"

definition json_quote :: "string \<Rightarrow> string" where
  "json_quote s = CHR 0x22 # concat (map json_escape s) @ [CHR 0x22]"

fun join :: "string \<Rightarrow> string list \<Rightarrow> string" where
  "join sep [] = []"
| "join sep [x] = x"
| "join sep (x # y # ys) = x @ sep @ join sep (y # ys)"

text \<open>\<open>encodeURIComponent\<close> on a string of UTF-8 bytes.\<close>

definition unreserved :: "char \<Rightarrow> bool" where
  "unreserved c =
     (let n = (of_char c :: nat) in
        (65 \<le> n \<and> n \<le> 90) \<or> (97 \<le> n \<and> n \<le> 122) \<or> (48 \<le> n \<and> n \<le> 57)
        \<or> c \<in> set ''-_.!~*'()'')"

definition encodeURIComponent :: "string \<Rightarrow> string" where
  "encodeURIComponent s =
     concat (map (\<lambda>c. if unreserved c then [c]
                       else [CHR ''%'', upper_hex_char (of_char c div 16),
                             upper_hex_char (of_char c mod 16)]) s)"

subsection \<open>The host environment\<close>

text \<open>
  What the code takes from the platform or from an optional dependency and this
  development does not fix: \<open>Date.parse\<close> (\<open>None\<close> is NaN), \<open>Date.prototype.toString\<close>
  and \<open>toISOString\<close>, \<open>JSON.parse\<close> (\<open>None\<close> is a SyntaxError), the optional global
  \<open>dataURLtoBlob\<close>, whether the global \<open>Blob\<close> is defined, and the enumerable
  properties a DOM object shows to \<open>for ... in\<close>. The DOM globals
  \<open>FormData\<close>, \<open>HTMLInputElement\<close> and \<open>HTMLCanvasElement\<close> are taken as defined
  (a browser).
\<close>

record host =
  date_parse :: "string \<Rightarrow> int option"
  date_to_string :: "int option \<Rightarrow> string"
  date_to_iso :: "int \<Rightarrow> string"
  json_parse :: "string \<Rightarrow> jsval option"
  dataURLtoBlob :: "(string \<Rightarrow> blob) option"
  blob_defined :: bool
  dom_properties :: "jsval \<Rightarrow> (string \<times> jsval) list"

text \<open>The conversion to string of \<open>'' + v\<close>, \<open>localStorage.setItem(k, v)\<close> and \<open>v == "{}"\<close>.\<close>

fun to_string :: "host \<Rightarrow> jsval \<Rightarrow> string"
  and to_string_elems :: "host \<Rightarrow> jsval list \<Rightarrow> string list" where
  "to_string h Undefined = ''undefined''"
| "to_string h Null = ''null''"
| "to_string h (Bool b) = (if b then ''true'' else ''false'')"
| "to_string h (Num n) = show_int n"
| "to_string h NaN = ''NaN''"
| "to_string h (Str s) = s"
| "to_string h (Obj fs) = ''[object Object]''"
| "to_string h (Arr xs) = join '','' (to_string_elems h xs)"
| "to_string h (Date t) = date_to_string h t"
| "to_string h (FormData es) = ''[object FormData]''"
| "to_string h (InputElement v fs) = ''[object HTMLInputElement]''"
| "to_string h (CanvasElement u) = ''[object HTMLCanvasElement]''"
| "to_string h (BlobV (Blob t)) = ''[object Blob]''"
| "to_string h (BlobV (File n t)) = ''[object File]''"
| "to_string_elems h [] = []"
| "to_string_elems h (x # xs) =
     (if x = Null \<or> x = Undefined then [] else to_string h x) # to_string_elems h xs"

text \<open>
  \<open>JSON.stringify(v, replacer)\<close> and \<open>JSON.stringify(v)\<close>: the serialization of the
  property value \<open>v\<close> of its holder, \<open>None\<close> for \<open>undefined\<close>. With \<open>dates\<close> the
  replacer of \<open>getPayload\<close> is installed, which returns
  \<open>Math.round(this[key].getTime() / 1000)\<close> when the holder's property is a Date and
  the value unchanged otherwise; without it a Date serializes through \<open>toJSON\<close>. DOM
  objects have no own enumerable property.
\<close>

fun serialize :: "host \<Rightarrow> bool \<Rightarrow> jsval \<Rightarrow> string option"
  and serialize_members :: "host \<Rightarrow> bool \<Rightarrow> (string \<times> jsval) list \<Rightarrow> string list"
  and serialize_elems :: "host \<Rightarrow> bool \<Rightarrow> jsval list \<Rightarrow> string list" where
  "serialize h dates Undefined = None"
| "serialize h dates Null = Some ''null''"
| "serialize h dates (Bool b) = Some (if b then ''true'' else ''false'')"
| "serialize h dates (Num n) = Some (show_int n)"
| "serialize h dates NaN = Some ''null''"
| "serialize h dates (Str s) = Some (json_quote s)"
| "serialize h dates (Obj fs) = Some (''{'' @ join '','' (serialize_members h dates fs) @ ''}'')"
| "serialize h dates (Arr xs) = Some (''['' @ join '','' (serialize_elems h dates xs) @ '']'')"
| "serialize h dates (Date t) =
     (case t of
        None \<Rightarrow> Some ''null''
      | Some ms \<Rightarrow>
          if dates then Some (show_int (round_seconds ms))
          else Some (json_quote (date_to_iso h ms)))"
| "serialize h dates (FormData es) = Some ''{}''"
| "serialize h dates (InputElement v fs) = Some ''{}''"
| "serialize h dates (CanvasElement u) = Some ''{}''"
| "serialize h dates (BlobV b) = Some ''{}''"
| "serialize_members h dates [] = []"
| "serialize_members h dates (kv # fs) =
     (case serialize h dates (snd kv) of
        None \<Rightarrow> serialize_members h dates fs
      | Some s \<Rightarrow> (json_quote (fst kv) @ '':'' @ s) # serialize_members h dates fs)"
| "serialize_elems h dates [] = []"
| "serialize_elems h dates (x # xs) =
     (case serialize h dates x of None \<Rightarrow> ''null'' | Some s \<Rightarrow> s) # serialize_elems h dates xs"


section \<open>The state the components share\<close>

text \<open>
  \<open>localStorage\<close> (the Web Storage interface: \<open>getItem\<close> returns \<open>null\<close>, here
  \<open>None\<close>, for an absent key, and \<open>setItem\<close> stores the string conversion of its
  argument), the Auth instance's \<open>currentUser\<close>, the events it has triggered and the
  calls of \<open>fetch\<close> made so far, in order.
\<close>

record envelope =
  req_url :: string
  req_method :: string
  req_headers :: "string \<rightharpoonup> string"
  req_body :: "jsval option"

record world =
  store :: "string \<rightharpoonup> string"
  currentUser :: jsval
  events :: "(string \<times> jsval) list"
  sent :: "envelope list"

record client =
  endpoint :: string
  app_id :: string
  key :: string
  method_override :: jsval

definition getItem :: "world \<Rightarrow> string \<Rightarrow> string option" where
  "getItem w k = store w k"

definition setItem :: "world \<Rightarrow> string \<Rightarrow> string \<Rightarrow> world" where
  "setItem w k v = w\<lparr>store := (store w)(k \<mapsto> v)\<rparr>"

definition removeItem :: "world \<Rightarrow> string \<Rightarrow> world" where
  "removeItem w k = w\<lparr>store := (store w)(k := None)\<rparr>"

definition AUTH_DATA_KEY :: string where
  "AUTH_DATA_KEY = ''hook-auth-data''"

definition AUTH_TOKEN_KEY :: string where
  "AUTH_TOKEN_KEY = ''hook-auth-token''"

definition AUTH_TOKEN_EXPIRATION :: string where
  "AUTH_TOKEN_EXPIRATION = ''hook-auth-token-expiration''"

text \<open>\<open>this.client.app_id + '-' + Auth.KEY\<close>.\<close>

definition storage_key :: "client \<Rightarrow> string \<Rightarrow> string" where
  "storage_key c k = app_id c @ ''-'' @ k"

text \<open>
  Modelled from the spec: \<open>Events.trigger\<close> (utils/events is not under src/). The spec
  says Auth emits a \<open>login\<close> or \<open>logout\<close> event carrying a user document; the event
  is recorded, and listeners are taken not to touch the state of Auth.
\<close>

definition trigger :: "world \<Rightarrow> string \<Rightarrow> jsval \<Rightarrow> world" where
  "trigger w name payload = w\<lparr>events := events w @ [(name, payload)]\<rparr>"

definition getToken :: "client \<Rightarrow> world \<Rightarrow> string option" where
  "getToken c w = getItem w (storage_key c AUTH_TOKEN_KEY)"

section \<open>Client: the request pipeline\<close>

definition getHeaders :: "client \<Rightarrow> world \<Rightarrow> (string \<rightharpoonup> string)" where
  "getHeaders c w =
     (let request_headers = [''X-App-Id'' \<mapsto> app_id c, ''X-App-Key'' \<mapsto> key c] in
      case getToken c w of
        None \<Rightarrow> request_headers
      | Some auth_token \<Rightarrow>
          if auth_token \<noteq> [] then request_headers(''X-Auth-Token'' \<mapsto> auth_token)
          else request_headers)"

text \<open>
  \<open>value.type.match(/\/(.*)/)[1]\<close>: what follows the first slash, up to the end of the
  line; \<open>None\<close> when there is no slash, where \<open>match\<close> returns \<open>null\<close> and the index
  raises a TypeError.
\<close>

definition blob_extension :: "string \<Rightarrow> string option" where
  "blob_extension t =
     (if CHR ''/'' \<in> set t
      then Some (takeWhile (\<lambda>c. c \<noteq> CHR 0x0A \<and> c \<noteq> CHR 0x0D)
                   (tl (dropWhile (\<lambda>c. c \<noteq> CHR ''/'') t)))
      else None)"

text \<open>
  The end of the loop body: an Array is not appended, a string is appended as a text
  field, anything else with \<open>filename || "file"\<close> inside \<open>try\<close>; a browser's
  \<open>FormData.append\<close> with a filename takes a Blob and raises a TypeError, which the
  code swallows, on any other value.
\<close>

fun append_field :: "string \<Rightarrow> jsval \<Rightarrow> string option \<Rightarrow> form_entry list \<Rightarrow> form_entry list" where
  "append_field field (Arr xs) filename formdata = formdata"
| "append_field field (Str s) filename formdata = formdata @ [TextEntry field s]"
| "append_field field (BlobV b) filename formdata =
     formdata @ [FileEntry field b
       (case filename of None \<Rightarrow> ''file'' | Some n \<Rightarrow> if n = [] then ''file'' else n)]"
| "append_field field v filename formdata = formdata"

text \<open>One round of \<open>for (field in data)\<close>, on the pair \<open>(formdata, worth)\<close>.\<close>

fun payload_field ::
  "host \<Rightarrow> string \<Rightarrow> jsval \<Rightarrow> form_entry list \<times> bool \<Rightarrow> error + (form_entry list \<times> bool)" where
  "payload_field h field Undefined (formdata, worth) = Inr (formdata, worth)"
| "payload_field h field Null (formdata, worth) = Inr (formdata, worth)"
| "payload_field h field (Bool b) (formdata, worth) =
     Inr (append_field field (Str (to_string h (Bool b))) None formdata, worth)"
| "payload_field h field (Num n) (formdata, worth) =
     Inr (append_field field (Str (to_string h (Num n))) None formdata, worth)"
| "payload_field h field NaN (formdata, worth) =
     Inr (append_field field (Str (to_string h NaN)) None formdata, worth)"
| "payload_field h field (Str s) (formdata, worth) =
     Inr (append_field field (Str s) None formdata, worth)"
| "payload_field h field (InputElement v files) (formdata, worth) =
     (case files of
        f # rest \<Rightarrow> Inr (append_field field (BlobV f) (blob_name f) formdata, True)
      | [] \<Rightarrow> Inr (append_field field (Str v) None formdata, worth))"
| "payload_field h field (CanvasElement u) (formdata, worth) =
     (case dataURLtoBlob h of
        None \<Rightarrow> Inl (Error ''Please add this dependency in your project: https://github.com/blueimp/JavaScript-Canvas-to-Blob'')
      | Some convert \<Rightarrow>
          Inr (append_field field (BlobV (convert u)) (Some ''canvas.png'') formdata, True))"
| "payload_field h field (BlobV b) (formdata, worth) =
     (if blob_defined h then
        (case blob_extension (blob_type b) of
           None \<Rightarrow> Inl TypeError
         | Some ext \<Rightarrow> Inr (append_field field (BlobV b) (Some (''blob.'' @ ext)) formdata, True))
      else Inr (append_field field (BlobV b) None formdata, worth))"
| "payload_field h field v (formdata, worth) =
     Inr (append_field field v None formdata, worth)"

fun payload_fields ::
  "host \<Rightarrow> (string \<times> jsval) list \<Rightarrow> form_entry list \<times> bool \<Rightarrow> error + (form_entry list \<times> bool)" where
  "payload_fields h [] acc = Inr acc"
| "payload_fields h (kv # fs) acc =
     (case payload_field h (fst kv) (snd kv) acc of
        Inl e \<Rightarrow> Inl e
      | Inr acc' \<Rightarrow> payload_fields h fs acc')"

text \<open>
  The properties \<open>for (field in data)\<close> visits: a plain object's own properties, an
  array's and a string's indices, none on a boolean, a number or a Date, and the
  host's on a DOM object.
\<close>

fun enumerate_props :: "host \<Rightarrow> jsval \<Rightarrow> (string \<times> jsval) list" where
  "enumerate_props h (Obj fs) = fs"
| "enumerate_props h (Arr xs) = zip (map show_nat [0..<length xs]) xs"
| "enumerate_props h (Str s) = zip (map show_nat [0..<length s]) (map (\<lambda>c. Str [c]) s)"
| "enumerate_props h (InputElement v fs) = dom_properties h (InputElement v fs)"
| "enumerate_props h (CanvasElement u) = dom_properties h (CanvasElement u)"
| "enumerate_props h (BlobV b) = dom_properties h (BlobV b)"
| "enumerate_props h v = []"

text \<open>
  The test \<open>payload == "{}"\<close>: string equality on a string, the string conversion on an
  object, and false on \<open>undefined\<close>, \<open>null\<close>, and on a boolean or a number (which
  compare with the number the string converts to, NaN).
\<close>

fun equals_empty_literal :: "host \<Rightarrow> jsval \<Rightarrow> bool" where
  "equals_empty_literal h (Str s) = (s = ''{}'')"
| "equals_empty_literal h Undefined = False"
| "equals_empty_literal h Null = False"
| "equals_empty_literal h (Bool b) = False"
| "equals_empty_literal h (Num n) = False"
| "equals_empty_literal h NaN = False"
| "equals_empty_literal h v = (to_string h v = ''{}'')"

fun is_formdata :: "jsval \<Rightarrow> bool" where
  "is_formdata (FormData es) = True"
| "is_formdata v = False"

text \<open>The multipart stage of \<open>getPayload\<close>: the value of \<open>payload\<close> before line 310.\<close>

definition multipart_payload :: "host \<Rightarrow> string \<Rightarrow> jsval \<Rightarrow> error + jsval" where
  "multipart_payload h method data =
     (if is_formdata data then Inr data
      else if method \<noteq> ''GET'' then
        (case payload_fields h (enumerate_props h data) ([], False) of
           Inl e \<Rightarrow> Inl e
         | Inr (formdata, worth) \<Rightarrow> Inr (if worth then FormData formdata else Null))
      else Inr Null)"

definition getPayload :: "host \<Rightarrow> string \<Rightarrow> jsval \<Rightarrow> error + jsval" where
  "getPayload h method data =
     (if truthy data then
        (case multipart_payload h method data of
           Inl e \<Rightarrow> Inl e
         | Inr p \<Rightarrow>
             let payload =
               (if truthy p then p
                else case serialize h True data of None \<Rightarrow> Undefined | Some s \<Rightarrow> Str s)
             in if equals_empty_literal h payload then Inr Null
                else if method = ''GET'' \<and> typeof payload = ''string''
                  then Inr (Str (encodeURIComponent (to_string h payload)))
                else Inr payload)
      else Inr Null)"

text \<open>
  \<open>fetch(url, initObj)\<close> records the call and returns a promise; the promise a
  component returns is the list of the callbacks it has attached with \<open>then\<close>.
\<close>

datatype callback = RegisterToken | SetCurrentUser

datatype promise = Promise "callback list"

definition fetch :: "world \<Rightarrow> envelope \<Rightarrow> world \<times> (error + promise)" where
  "fetch w e = (w\<lparr>sent := sent w @ [e]\<rparr>, Inr (Promise []))"

text \<open>
  \<open>request(segments, method, data)\<close>; \<open>method0\<close> is the verb the caller passed and
  \<open>method\<close> the variable after the method-override step.
\<close>

definition request ::
  "host \<Rightarrow> client \<Rightarrow> world \<Rightarrow> string \<Rightarrow> string \<Rightarrow> jsval \<Rightarrow> world \<times> (error + promise)" where
  "request h c w segments method0 data =
     (let request_headers = (getHeaders c w)(''Content-Type'' \<mapsto> ''text/json'');
          override = (method0 \<noteq> ''GET'' \<and> method0 \<noteq> ''POST'' \<and> truthy (method_override c));
          request_headers =
            (if override then request_headers(''X-HTTP-Method-Override'' \<mapsto> method0)
             else request_headers);
          method = (if override then ''POST'' else method0);
          url = endpoint c @ segments
      in case getPayload h method data of
           Inl e \<Rightarrow> (w, Inl e)
         | Inr payload \<Rightarrow>
             if method = ''GET''
             then fetch w \<lparr>req_url = url @ ''?'' @ to_string h payload, req_method = method,
                            req_headers = request_headers, req_body = None\<rparr>
             else fetch w \<lparr>req_url = url, req_method = method,
                            req_headers = request_headers, req_body = Some payload\<rparr>)"

definition post :: "host \<Rightarrow> client \<Rightarrow> world \<Rightarrow> string \<Rightarrow> jsval \<Rightarrow> world \<times> (error + promise)" where
  "post h c w segments data =
     request h c w segments ''POST'' (if data = Undefined then Obj [] else data)"


section \<open>Auth\<close>

text \<open>\<open>new Date(v)\<close> on what \<open>getItem\<close> returned: \<open>null\<close> converts to the time value 0.\<close>

definition new_Date :: "host \<Rightarrow> string option \<Rightarrow> int option" where
  "new_Date h v = (case v of None \<Rightarrow> Some 0 | Some s \<Rightarrow> date_parse h s)"

text \<open>\<open>a < b\<close> on two time values, false when \<open>b\<close> is NaN.\<close>

definition time_less :: "int \<Rightarrow> int option \<Rightarrow> bool" where
  "time_less a b = (case b of None \<Rightarrow> False | Some t \<Rightarrow> a < t)"

text \<open>The constructor, run at the wall-clock time \<open>now\<close> (milliseconds).\<close>

definition Auth_constructor :: "host \<Rightarrow> client \<Rightarrow> int \<Rightarrow> world \<Rightarrow> world \<times> (error + unit)" where
  "Auth_constructor h c now w0 =
     (let w = w0\<lparr>currentUser := Null\<rparr>;
          tokenExpiration = new_Date h (getItem w (storage_key c AUTH_TOKEN_EXPIRATION));
          persisted = getItem w (storage_key c AUTH_DATA_KEY)
      in case persisted of
           None \<Rightarrow> (w, Inr ())
         | Some doc \<Rightarrow>
             if doc \<noteq> [] \<and> time_less now tokenExpiration then
               (case json_parse h doc of
                  None \<Rightarrow> (w, Inl SyntaxError)
                | Some v \<Rightarrow> (w\<lparr>currentUser := v\<rparr>, Inr ()))
             else (w, Inr ()))"

text \<open>\<open>JSON.stringify(data)\<close> handed to \<open>setItem\<close>.\<close>

definition stringify_item :: "host \<Rightarrow> jsval \<Rightarrow> string" where
  "stringify_item h data = (case serialize h False data of None \<Rightarrow> ''undefined'' | Some s \<Rightarrow> s)"

definition setCurrentUser :: "host \<Rightarrow> client \<Rightarrow> world \<Rightarrow> jsval \<Rightarrow> world" where
  "setCurrentUser h c w data =
     (if \<not> truthy data then
        let w1 = trigger w ''logout'' (currentUser w);
            w2 = w1\<lparr>currentUser := data\<rparr>;
            w3 = removeItem w2 (storage_key c AUTH_TOKEN_KEY)
        in removeItem w3 (storage_key c AUTH_DATA_KEY)
      else
        let w1 = setItem w (storage_key c AUTH_DATA_KEY) (stringify_item h data);
            w2 = w1\<lparr>currentUser := data\<rparr>
        in trigger w2 ''login'' data)"

definition logout :: "host \<Rightarrow> client \<Rightarrow> world \<Rightarrow> world" where
  "logout h c w = setCurrentUser h c w Null"

definition isLogged :: "world \<Rightarrow> bool" where
  "isLogged w = (currentUser w \<noteq> Null)"

definition registerToken :: "host \<Rightarrow> client \<Rightarrow> world \<Rightarrow> jsval \<Rightarrow> world \<times> (error + unit)" where
  "registerToken h c w data =
     (case get_prop data ''token'' of
        Inl e \<Rightarrow> (w, Inl e)
      | Inr tok \<Rightarrow>
          if truthy tok then
            (case get_prop tok ''token'' of
               Inl e \<Rightarrow> (w, Inl e)
             | Inr t \<Rightarrow>
                 let w1 = setItem w (storage_key c AUTH_TOKEN_KEY) (to_string h t) in
                 (case get_prop tok ''expire_at'' of
                    Inl e \<Rightarrow> (w1, Inl e)
                  | Inr ex \<Rightarrow>
                      let w2 = setItem w1 (storage_key c AUTH_TOKEN_EXPIRATION) (to_string h ex)
                      in (setCurrentUser h c w2 (delete_prop data ''token''), Inr ())))
          else (w, Inr ()))"

text \<open>\<open>promise.then(callback)\<close> on the promise a call returned, if it returned.\<close>

fun and_then :: "world \<times> (error + promise) \<Rightarrow> callback \<Rightarrow> world \<times> (error + promise)" where
  "and_then (w, Inl e) cb = (w, Inl e)"
| "and_then (w, Inr (Promise cbs)) cb = (w, Inr (Promise (cbs @ [cb])))"

text \<open>What a callback does with the response body the promise resolves with.\<close>

fun fulfil :: "host \<Rightarrow> client \<Rightarrow> world \<Rightarrow> callback \<Rightarrow> jsval \<Rightarrow> world \<times> (error + unit)" where
  "fulfil h c w RegisterToken data = registerToken h c w data"
| "fulfil h c w SetCurrentUser data = (setCurrentUser h c w data, Inr ())"

definition register :: "host \<Rightarrow> client \<Rightarrow> world \<Rightarrow> jsval \<Rightarrow> world \<times> (error + promise)" where
  "register h c w data =
     and_then (post h c w ''auth/email'' (if data = Undefined then Obj [] else data)) RegisterToken"

definition login :: "host \<Rightarrow> client \<Rightarrow> world \<Rightarrow> jsval \<Rightarrow> world \<times> (error + promise)" where
  "login h c w data =
     and_then (post h c w ''auth/email/login'' (if data = Undefined then Obj [] else data)) RegisterToken"

text \<open>
  \<open>update\<close>. The class Collection is not under src/: \<open>collection_update name _id data\<close>
  stands for \<open>this.client.collection(name).update(_id, data)\<close> and is a parameter.
\<close>

definition update ::
  "(string \<Rightarrow> jsval \<Rightarrow> jsval \<Rightarrow> world \<Rightarrow> world \<times> (error + promise)) \<Rightarrow>
   world \<Rightarrow> jsval \<Rightarrow> world \<times> (error + promise)" where
  "update collection_update w data =
     (if \<not> truthy (currentUser w) then (w, Inl (Error ''not logged in.''))
      else
        (case get_prop (currentUser w) ''_id'' of
           Inl e \<Rightarrow> (w, Inl e)
         | Inr user_id \<Rightarrow> and_then (collection_update ''auth'' user_id data w) SetCurrentUser))"

definition forgotPassword :: "host \<Rightarrow> client \<Rightarrow> world \<Rightarrow> jsval \<Rightarrow> world \<times> (error + promise)" where
  "forgotPassword h c w data =
     post h c w ''auth/email/forgotPassword'' (if data = Undefined then Obj [] else data)"

definition resetPassword :: "host \<Rightarrow> client \<Rightarrow> world \<Rightarrow> jsval \<Rightarrow> world \<times> (error + promise)" where
  "resetPassword h c w data =
     (case get_prop data ''token'' of
        Inl e \<Rightarrow> (w, Inl e)
      | Inr t \<Rightarrow>
          if typeof t \<noteq> ''string'' then
            (w, Inl (Error ''forgot password token required. Remember to use 'auth.forgotPassword' before 'auth.resetPassword'.''))
          else
            (case get_prop data ''password'' of
               Inl e \<Rightarrow> (w, Inl e)
             | Inr p \<Rightarrow>
                 if typeof p \<noteq> ''string'' then (w, Inl (Error ''new password required.''))
                 else post h c w ''auth/email/resetPassword'' data))"


text \<open>\<open>typeof(data.k) === "string"\<close>, false also where reading \<open>data.k\<close> raises.\<close>

definition has_string :: "jsval \<Rightarrow> string \<Rightarrow> bool" where
  "has_string data k = (case get_prop data k of Inl e \<Rightarrow> False | Inr v \<Rightarrow> typeof v = ''string'')"

text \<open>
  The values on which the loop of \<open>getPayload\<close> sets \<open>worth = true\<close>: a file input
  with a file attached, a canvas, and a Blob where the global \<open>Blob\<close> is defined.
\<close>

fun file_bearing :: "host \<Rightarrow> jsval \<Rightarrow> bool" where
  "file_bearing h (InputElement v files) = (files \<noteq> [])"
| "file_bearing h (CanvasElement u) = True"
| "file_bearing h (BlobV b) = blob_defined h"
| "file_bearing h v = False"

text \<open>
  The values on which the loop raises: a canvas while \<open>dataURLtoBlob\<close> is undefined
  (the \<open>throw\<close> of line 277) and a Blob whose type has no slash (the index into the
  \<open>null\<close> that \<open>match\<close> returns, line 285).
\<close>

fun raises :: "host \<Rightarrow> jsval \<Rightarrow> bool" where
  "raises h (CanvasElement u) = (dataURLtoBlob h = None)"
| "raises h (BlobV b) = (blob_defined h \<and> blob_extension (blob_type b) = None)"
| "raises h v = False"

text \<open>The scalars of line 263: \<open>typeof\<close> is \<open>boolean\<close>, \<open>number\<close> or \<open>string\<close>.\<close>

fun is_scalar :: "jsval \<Rightarrow> bool" where
  "is_scalar (Bool b) = True"
| "is_scalar (Num n) = True"
| "is_scalar NaN = True"
| "is_scalar (Str s) = True"
| "is_scalar v = False"

section \<open>Example configurations\<close>

text \<open>
  A host, a client and a store to run the code on: the store holds a user document, a
  token and an expiration that the host's \<open>Date.parse\<close> reads as 2000 ms.
\<close>

definition example_host :: host where
  \<open>example_host =
     \<lparr>date_parse = (\<lambda>s. if s = ''1970-01-01T00:00:02.000Z'' then Some 2000 else None),
      date_to_string = (\<lambda>t. ''Invalid Date''),
      date_to_iso = (\<lambda>t. ''1970-01-01T00:00:00.000Z''),
      json_parse =
        (\<lambda>s. if s = ''{"name":"ann"}'' then Some (Obj [(''name'', Str ''ann'')]) else None),
      dataURLtoBlob = Some (\<lambda>u. Blob ''image/png''),
      blob_defined = True,
      dom_properties = (\<lambda>v. [])\<rparr>\<close>

definition example_client :: client where
  "example_client =
     \<lparr>endpoint = ''http://hook.dev/'', app_id = ''1'', key = ''test'',
      method_override = Bool True\<rparr>"

text \<open>The same client with no \<open>method_override\<close> option.\<close>

definition example_plain_client :: client where
  "example_plain_client = example_client\<lparr>method_override := Undefined\<rparr>"

definition example_store :: "string \<rightharpoonup> string" where
  \<open>example_store =
     [''1-hook-auth-data'' \<mapsto> ''{"name":"ann"}'',
      ''1-hook-auth-token'' \<mapsto> ''secret'',
      ''1-hook-auth-token-expiration'' \<mapsto> ''1970-01-01T00:00:02.000Z'']\<close>

definition example_world :: world where
  "example_world = \<lparr>store = example_store, currentUser = Null, events = [], sent = []\<rparr>"


text \<open>
  A user that is logged in, and a stand-in for \<open>Collection.update\<close> to run \<open>update\<close>
  with: a POST to \<open>collection/name/_id\<close>.
\<close>

definition example_user :: jsval where
  "example_user = Obj [(''_id'', Num 7), (''name'', Str ''ann'')]"

definition example_collection_update ::
  "string \<Rightarrow> jsval \<Rightarrow> jsval \<Rightarrow> world \<Rightarrow> world \<times> (error + promise)" where
  "example_collection_update name user_id data w =
     post example_host example_client w
       (''collection/'' @ name @ ''/'' @ to_string example_host user_id) data"

text \<open>A login response that carries a token, and one that carries none.\<close>

definition example_login_response :: jsval where
  "example_login_response =
     Obj [(''_id'', Num 7), (''name'', Str ''ann''),
          (''token'', Obj [(''token'', Str ''abc''), (''expire_at'', Str ''2030-01-01 00:00:00'')])]"

definition example_error_response :: jsval where
  "example_error_response = Obj [(''error'', Str ''Invalid credentials.'')]"

section \<open>Auth: construction\<close>

lemmas key_defs = storage_key_def AUTH_DATA_KEY_def AUTH_TOKEN_KEY_def AUTH_TOKEN_EXPIRATION_def

lemmas example_defs = example_world_def example_store_def example_client_def example_host_def

lemma example_data_item:
  "store example_world (storage_key example_client AUTH_DATA_KEY) = Some ''{\"name\":\"ann\"}''"
  by (simp add: example_defs key_defs)

lemma example_expiration_item:
  "store example_world (storage_key example_client AUTH_TOKEN_EXPIRATION)
     = Some ''1970-01-01T00:00:02.000Z''"
  by (simp add: example_defs key_defs)

lemma example_expiration_time:
  "date_parse example_host ''1970-01-01T00:00:02.000Z'' = Some 2000"
  by (simp add: example_defs)

lemma example_parse:
  "json_parse example_host ''{\"name\":\"ann\"}'' = Some (Obj [(''name'', Str ''ann'')])"
  by (simp add: example_defs)

text \<open>
  C3. With a persisted user document (a non-empty string, as every document that
  \<open>setCurrentUser\<close> stores is) and a persisted expiration that \<open>Date.parse\<close> reads as the
  time \<open>E\<close>, constructing Auth at the time \<open>now\<close> leaves \<open>currentUser\<close> null when
  \<open>now \<ge> E\<close>; when \<open>now < E\<close> it sets \<open>currentUser\<close> to what \<open>JSON.parse\<close> makes of
  the document (and raises the SyntaxError of \<open>JSON.parse\<close> if the document is not JSON).
\<close>

theorem Auth_constructor_expiration_boundary:
  assumes "store w (storage_key c AUTH_DATA_KEY) = Some doc" and "doc \<noteq> []"
    and "store w (storage_key c AUTH_TOKEN_EXPIRATION) = Some s"
    and "date_parse h s = Some E"
  shows "(E \<le> now \<longrightarrow> Auth_constructor h c now w = (w\<lparr>currentUser := Null\<rparr>, Inr ()))
       \<and> (now < E \<longrightarrow>
            Auth_constructor h c now w =
              (case json_parse h doc of
                 None \<Rightarrow> (w\<lparr>currentUser := Null\<rparr>, Inl SyntaxError)
               | Some v \<Rightarrow> (w\<lparr>currentUser := v\<rparr>, Inr ())))"
  using assms
  by (simp add: Auth_constructor_def getItem_def new_Date_def time_less_def Let_def
      split: option.splits)

theorem Auth_constructor_expiration_boundary_witness:
  "Auth_constructor example_host example_client 2000 example_world
     = (example_world\<lparr>currentUser := Null\<rparr>, Inr ())
   \<and> Auth_constructor example_host example_client 1999 example_world
     = (example_world\<lparr>currentUser := Obj [(''name'', Str ''ann'')]\<rparr>, Inr ())"
proof -
  have ne: "''{\"name\":\"ann\"}'' \<noteq> []" by simp
  note b = Auth_constructor_expiration_boundary
    [OF example_data_item ne example_expiration_item example_expiration_time]
  from b [of 2000] b [of 1999] show ?thesis
    by (simp add: example_parse)
qed

text \<open>
  C5 (as the code has it). When construction finds the session expired, \<open>currentUser\<close>
  is null and the store is as it was: the constructor removes nothing, so the persisted
  token and user document stay.
\<close>

theorem Auth_constructor_expired_keeps_store:
  assumes "store w (storage_key c AUTH_DATA_KEY) = Some doc" and "doc \<noteq> []"
    and "store w (storage_key c AUTH_TOKEN_EXPIRATION) = Some s"
    and "date_parse h s = Some E" and "E \<le> now"
  shows "currentUser (fst (Auth_constructor h c now w)) = Null
       \<and> store (fst (Auth_constructor h c now w)) = store w
       \<and> getToken c (fst (Auth_constructor h c now w)) = getToken c w
       \<and> snd (Auth_constructor h c now w) = Inr ()"
  using assms
  by (simp add: Auth_constructor_def getItem_def getToken_def new_Date_def time_less_def Let_def)

theorem Auth_constructor_expired_keeps_store_witness:
  "currentUser (fst (Auth_constructor example_host example_client 2000 example_world)) = Null
   \<and> store (fst (Auth_constructor example_host example_client 2000 example_world)) = example_store
   \<and> getToken example_client (fst (Auth_constructor example_host example_client 2000 example_world))
       = Some ''secret''"
proof -
  have ne: "''{\"name\":\"ann\"}'' \<noteq> []" by simp
  have le: "(2000::int) \<le> 2000" by simp
  from Auth_constructor_expired_keeps_store
    [OF example_data_item ne example_expiration_item example_expiration_time le]
  show ?thesis
    by (simp add: getToken_def getItem_def example_defs key_defs)
qed

text \<open>
  The claim of C5 fails: at the time 2000 the example session has expired, and after
  construction the token and the user document are still in the store, where a logout
  removes both.
\<close>

theorem Auth_constructor_expired_not_cleared:
  "date_parse example_host ''1970-01-01T00:00:02.000Z'' = Some 2000
   \<and> getItem (fst (Auth_constructor example_host example_client 2000 example_world))
       (storage_key example_client AUTH_TOKEN_KEY) = Some ''secret''
   \<and> getItem (fst (Auth_constructor example_host example_client 2000 example_world))
       (storage_key example_client AUTH_DATA_KEY) = Some ''{\"name\":\"ann\"}''
   \<and> getItem (logout example_host example_client example_world)
       (storage_key example_client AUTH_TOKEN_KEY) = None
   \<and> getItem (logout example_host example_client example_world)
       (storage_key example_client AUTH_DATA_KEY) = None"
  by (simp add: Auth_constructor_def getItem_def new_Date_def time_less_def Let_def
      logout_def setCurrentUser_def removeItem_def trigger_def example_defs key_defs)

section \<open>Auth: the current user\<close>

text \<open>
  After \<open>setCurrentUser(d)\<close>, \<open>isLogged()\<close> tells whether \<open>d\<close> is not \<open>null\<close>.
\<close>

lemma isLogged_setCurrentUser: "isLogged (setCurrentUser h c w d) \<longleftrightarrow> d \<noteq> Null"
  by (simp add: isLogged_def setCurrentUser_def removeItem_def setItem_def trigger_def Let_def)

text \<open>
  C4. The claim is that \<open>setCurrentUser(d)\<close> followed by \<open>isLogged()\<close> returns true
  exactly when \<open>d\<close> is truthy. On \<open>false\<close> the code does otherwise:
  \<open>setCurrentUser(false)\<close> takes the logout branch, which triggers \<open>logout\<close>, removes
  the token and stores the falsy value itself in \<open>currentUser\<close>; \<open>isLogged()\<close> compares
  with \<open>null\<close> only and returns true. After \<open>setCurrentUser(null)\<close> it returns false.
\<close>

theorem setCurrentUser_false_isLogged:
  "\<not> truthy (Bool False)
   \<and> isLogged (setCurrentUser h c w (Bool False))
   \<and> getToken c (setCurrentUser h c w (Bool False)) = None
   \<and> \<not> isLogged (setCurrentUser h c w Null)"
  by (simp add: isLogged_def getToken_def getItem_def setCurrentUser_def removeItem_def
      trigger_def key_defs)

section \<open>Client: dispatch\<close>

lemma example_endpoint: "endpoint example_client = ''http://hook.dev/''"
  by (simp add: example_client_def)

lemma example_sent: "sent example_world = []"
  by (simp add: example_world_def)

lemma post_throws:
  assumes "getPayload h ''POST'' data = Inl e" and "data \<noteq> Undefined"
  shows "post h c w segments data = (w, Inl e)"
  using assms by (simp add: post_def request_def Let_def)

lemma post_sends:
  assumes "getPayload h ''POST'' data = Inr payload" and "data \<noteq> Undefined"
  shows "post h c w segments data =
           (w\<lparr>sent := sent w @
               [\<lparr>req_url = endpoint c @ segments, req_method = ''POST'',
                 req_headers = (getHeaders c w)(''Content-Type'' \<mapsto> ''text/json''),
                 req_body = Some payload\<rparr>]\<rparr>,
            Inr (Promise []))"
  using assms by (simp add: post_def request_def fetch_def Let_def)

lemma getPayload_falsy: "\<not> truthy data \<Longrightarrow> getPayload h method data = Inr Null"
  by (simp add: getPayload_def)

lemma getPayload_GET_empty_literal:
  assumes "truthy data" and "\<not> is_formdata data" and "serialize h True data = Some ''{}''"
  shows "getPayload h ''GET'' data = Inr Null"
  using assms by (simp add: getPayload_def multipart_payload_def)

text \<open>
  C10. A GET request whose data is falsy (absent, for one) or serializes to the
  literal \<open>{}\<close> has the payload \<open>null\<close>, and is dispatched to the endpoint plus the
  segments followed by \<open>?null\<close>.
\<close>

theorem request_GET_null_payload:
  assumes "\<not> truthy data \<or> (\<not> is_formdata data \<and> serialize h True data = Some ''{}'')"
  shows "getPayload h ''GET'' data = Inr Null
       \<and> request h c w segments ''GET'' data =
           (w\<lparr>sent := sent w @
               [\<lparr>req_url = endpoint c @ segments @ ''?null'', req_method = ''GET'',
                 req_headers = (getHeaders c w)(''Content-Type'' \<mapsto> ''text/json''),
                 req_body = None\<rparr>]\<rparr>,
            Inr (Promise []))"
proof -
  have null: "getPayload h ''GET'' data = Inr Null"
  proof (cases "truthy data")
    case True
    with assms show ?thesis by (simp add: getPayload_GET_empty_literal)
  next
    case False
    then show ?thesis by (rule getPayload_falsy)
  qed
  then show ?thesis
    by (simp add: request_def fetch_def Let_def)
qed

theorem request_GET_null_payload_witness:
  "req_url (hd (sent (fst (request example_host example_client example_world ''items'' ''GET'' Undefined))))
     = ''http://hook.dev/items?null''
   \<and> req_url (hd (sent (fst (request example_host example_client example_world ''items'' ''GET'' (Obj [])))))
     = ''http://hook.dev/items?null''"
proof -
  have a: "\<not> truthy Undefined \<or> (\<not> is_formdata Undefined \<and> serialize example_host True Undefined = Some ''{}'')"
    by simp
  have b: "\<not> truthy (Obj []) \<or> (\<not> is_formdata (Obj []) \<and> serialize example_host True (Obj []) = Some ''{}'')"
    by simp
  from request_GET_null_payload
      [OF a, where c = example_client and w = example_world and segments = "''items''"]
    request_GET_null_payload
      [OF b, where c = example_client and w = example_world and segments = "''items''"]
  show ?thesis
    by (simp add: example_client_def example_world_def)
qed

section \<open>Auth: password reset and profile update\<close>

text \<open>
  C7. When \<open>data.token\<close> or \<open>data.password\<close> is missing or not a string,
  \<open>resetPassword\<close> raises an error and leaves the state, and so the list of network
  calls, as it was. When both are strings it hands \<open>data\<close> to \<open>client.post\<close> for the
  reset endpoint: exactly one request is dispatched, to the endpoint plus
  \<open>auth/email/resetPassword\<close>, unless \<open>getPayload\<close> raises while encoding \<open>data\<close>
  (a canvas field without \<open>dataURLtoBlob\<close>, a Blob whose type has no slash).
\<close>

theorem resetPassword_validation:
  "(\<not> has_string data ''token'' \<or> \<not> has_string data ''password'' \<longrightarrow>
      (\<exists>e. resetPassword h c w data = (w, Inl e)))
   \<and> (has_string data ''token'' \<and> has_string data ''password'' \<longrightarrow>
        resetPassword h c w data = post h c w ''auth/email/resetPassword'' data
        \<and> (case getPayload h ''POST'' data of
             Inl e \<Rightarrow> resetPassword h c w data = (w, Inl e)
           | Inr payload \<Rightarrow>
               resetPassword h c w data =
                 (w\<lparr>sent := sent w @
                     [\<lparr>req_url = endpoint c @ ''auth/email/resetPassword'',
                       req_method = ''POST'',
                       req_headers = (getHeaders c w)(''Content-Type'' \<mapsto> ''text/json''),
                       req_body = Some payload\<rparr>]\<rparr>,
                  Inr (Promise []))))"
proof (intro conjI impI)
  assume "\<not> has_string data ''token'' \<or> \<not> has_string data ''password''"
  then show "\<exists>e. resetPassword h c w data = (w, Inl e)"
    by (auto simp add: has_string_def resetPassword_def split: sum.splits)
next
  assume ok: "has_string data ''token'' \<and> has_string data ''password''"
  then show eq: "resetPassword h c w data = post h c w ''auth/email/resetPassword'' data"
    by (auto simp add: has_string_def resetPassword_def split: sum.splits)
  from ok have "data \<noteq> Undefined"
    by (auto simp add: has_string_def)
  then show "case getPayload h ''POST'' data of
       Inl e \<Rightarrow> resetPassword h c w data = (w, Inl e)
     | Inr payload \<Rightarrow>
         resetPassword h c w data =
           (w\<lparr>sent := sent w @
               [\<lparr>req_url = endpoint c @ ''auth/email/resetPassword'',
                 req_method = ''POST'',
                 req_headers = (getHeaders c w)(''Content-Type'' \<mapsto> ''text/json''),
                 req_body = Some payload\<rparr>]\<rparr>,
            Inr (Promise []))"
    by (simp add: eq post_throws post_sends split: sum.splits)
qed


theorem resetPassword_validation_witness:
  "(\<exists>e. resetPassword example_host example_client example_world (Obj [(''password'', Str ''x'')])
         = (example_world, Inl e))
   \<and> map req_url (sent (fst (resetPassword example_host example_client example_world
         (Obj [(''token'', Str ''t''), (''password'', Str ''x'')]))))
       = [''http://hook.dev/auth/email/resetPassword'']"
proof -
  let ?bad = "Obj [(''password'', Str ''x'')]"
  let ?good = "Obj [(''token'', Str ''t''), (''password'', Str ''x'')]"
  have bad: "\<not> has_string ?bad ''token''"
    by (simp add: has_string_def)
  have good: "has_string ?good ''token'' \<and> has_string ?good ''password''"
    by (simp add: has_string_def)
  have enc: "getPayload example_host ''POST'' ?good
      = Inr (Str ''{\"token\":\"t\",\"password\":\"x\"}'')"
    by code_simp
  from resetPassword_validation
      [where data = ?bad and h = example_host and c = example_client and w = example_world]
    bad
  have refused: "\<exists>e. resetPassword example_host example_client example_world ?bad
      = (example_world, Inl e)"
    by blast
  from resetPassword_validation
      [where data = ?good and h = example_host and c = example_client and w = example_world]
    good
  have "case getPayload example_host ''POST'' ?good of
          Inl e \<Rightarrow> resetPassword example_host example_client example_world ?good
            = (example_world, Inl e)
        | Inr payload \<Rightarrow>
            resetPassword example_host example_client example_world ?good =
              (example_world\<lparr>sent := sent example_world @
                  [\<lparr>req_url = endpoint example_client @ ''auth/email/resetPassword'',
                    req_method = ''POST'',
                    req_headers = (getHeaders example_client example_world)
                      (''Content-Type'' \<mapsto> ''text/json''),
                    req_body = Some payload\<rparr>]\<rparr>,
               Inr (Promise []))"
    by blast
  then have "map req_url (sent (fst (resetPassword example_host example_client example_world ?good)))
      = [''http://hook.dev/auth/email/resetPassword'']"
    by (simp add: enc example_sent example_endpoint)
  with refused show ?thesis
    by blast
qed

text \<open>
  C8. Without a current user (\<open>currentUser\<close> falsy) \<open>update\<close> raises the error
  \<open>not logged in.\<close> and leaves the state, and so the list of network calls, as it was,
  whatever \<open>Collection.update\<close> would do. With a current user it calls
  \<open>collection('auth').update\<close> with that user's \<open>_id\<close> and the data, and attaches to
  the promise a callback that applies \<open>setCurrentUser\<close> to the document the promise
  resolves with.
\<close>

theorem update_requires_current_user:
  "(\<not> truthy (currentUser w) \<longrightarrow>
      update collection_update w data = (w, Inl (Error ''not logged in.'')))
   \<and> (truthy (currentUser w) \<longrightarrow>
        (\<exists>user_id. get_prop (currentUser w) ''_id'' = Inr user_id
           \<and> update collection_update w data
               = and_then (collection_update ''auth'' user_id data w) SetCurrentUser))
   \<and> fulfil h c w' SetCurrentUser doc = (setCurrentUser h c w' doc, Inr ())"
  by (cases "currentUser w") (auto simp add: update_def split: option.splits)

theorem update_requires_current_user_witness:
  "update example_collection_update example_world (Obj [(''score'', Num 100)])
     = (example_world, Inl (Error ''not logged in.''))
   \<and> map req_url (sent (fst (update example_collection_update
         (example_world\<lparr>currentUser := example_user\<rparr>) (Obj [(''score'', Num 100)]))))
       = [''http://hook.dev/collection/auth/7'']
   \<and> snd (update example_collection_update
         (example_world\<lparr>currentUser := example_user\<rparr>) (Obj [(''score'', Num 100)]))
       = Inr (Promise [SetCurrentUser])"
proof -
  let ?w = "example_world\<lparr>currentUser := example_user\<rparr>"
  let ?d = "Obj [(''score'', Num 100)]"
  have out: "\<not> truthy (currentUser example_world)"
    by (simp add: example_world_def)
  have "in": "truthy (currentUser ?w)"
    by (simp add: example_user_def)
  have id: "get_prop (currentUser ?w) ''_id'' = Inr (Num 7)"
    by (simp add: example_user_def)
  have enc: "getPayload example_host ''POST'' ?d = Inr (Str ''{\"score\":100}'')"
    by code_simp
  have seven: "to_string example_host (Num 7) = ''7''"
    by code_simp
  have call: "example_collection_update ''auth'' (Num 7) ?d ?w
      = (?w\<lparr>sent := sent ?w @
            [\<lparr>req_url = endpoint example_client @ ''collection/auth/7'', req_method = ''POST'',
              req_headers = (getHeaders example_client ?w)(''Content-Type'' \<mapsto> ''text/json''),
              req_body = Some (Str ''{\"score\":100}'')\<rparr>]\<rparr>, Inr (Promise []))"
    unfolding example_collection_update_def seven
    by (simp add: post_sends [OF enc])
  from update_requires_current_user
      [where w = example_world and collection_update = example_collection_update and data = ?d]
    out
  have refused: "update example_collection_update example_world ?d
      = (example_world, Inl (Error ''not logged in.''))"
    by blast
  from update_requires_current_user
      [where w = ?w and collection_update = example_collection_update and data = ?d]
    "in"
  obtain user_id where u: "get_prop (currentUser ?w) ''_id'' = Inr user_id"
    and run: "update example_collection_update ?w ?d
      = and_then (example_collection_update ''auth'' user_id ?d ?w) SetCurrentUser"
    by blast
  from u id have "user_id = Num 7"
    by simp
  with run call have "update example_collection_update ?w ?d
      = (?w\<lparr>sent := sent ?w @
            [\<lparr>req_url = endpoint example_client @ ''collection/auth/7'', req_method = ''POST'',
              req_headers = (getHeaders example_client ?w)(''Content-Type'' \<mapsto> ''text/json''),
              req_body = Some (Str ''{\"score\":100}'')\<rparr>]\<rparr>, Inr (Promise [SetCurrentUser]))"
    by simp
  then have "map req_url (sent (fst (update example_collection_update ?w ?d)))
        = [''http://hook.dev/collection/auth/7'']
      \<and> snd (update example_collection_update ?w ?d) = Inr (Promise [SetCurrentUser])"
    by (simp add: example_sent example_endpoint)
  with refused show ?thesis
    by blast
qed


section \<open>Auth: token registration\<close>

lemma storage_keys_distinct:
  "storage_key c AUTH_TOKEN_KEY \<noteq> storage_key c AUTH_TOKEN_EXPIRATION"
  "storage_key c AUTH_TOKEN_KEY \<noteq> storage_key c AUTH_DATA_KEY"
  "storage_key c AUTH_TOKEN_EXPIRATION \<noteq> storage_key c AUTH_DATA_KEY"
  by (simp_all add: key_defs)

lemma map_of_without: "map_of (filter (\<lambda>kv. fst kv \<noteq> k) fs) k = None"
  by (induction fs) auto

lemma registerToken_stores:
  assumes "map_of fs ''token'' = Some tok" and "truthy tok"
    and "get_prop tok ''token'' = Inr t" and "get_prop tok ''expire_at'' = Inr ex"
  shows "registerToken h c w (Obj fs) =
           (setCurrentUser h c
              (setItem (setItem w (storage_key c AUTH_TOKEN_KEY) (to_string h t))
                 (storage_key c AUTH_TOKEN_EXPIRATION) (to_string h ex))
              (Obj (filter (\<lambda>kv. fst kv \<noteq> ''token'') fs)),
            Inr ())"
  using assms by (simp add: registerToken_def)

text \<open>
  C2. On a response body \<open>{...fields, token: {token: T, expire_at: E}}\<close> with a string
  \<open>T\<close>, the token-registration step completes, and afterwards \<open>getToken()\<close> returns
  \<open>T\<close>, the persisted expiration entry is \<open>E\<close> as \<open>setItem\<close> stores it (its string
  conversion, \<open>E\<close> itself when it is a string), and the current user, in memory and
  serialized in the store, is the body without its \<open>token\<close> property. On a body with no
  \<open>token\<close> property the step returns the state it was given.
\<close>

theorem registerToken_round_trip:
  "(map_of fs ''token'' = Some (Obj tfs) \<and> map_of tfs ''token'' = Some (Str T)
      \<and> map_of tfs ''expire_at'' = Some E \<longrightarrow>
      snd (registerToken h c w (Obj fs)) = Inr ()
      \<and> getToken c (fst (registerToken h c w (Obj fs))) = Some T
      \<and> getItem (fst (registerToken h c w (Obj fs))) (storage_key c AUTH_TOKEN_EXPIRATION)
          = Some (to_string h E)
      \<and> currentUser (fst (registerToken h c w (Obj fs)))
          = Obj (filter (\<lambda>kv. fst kv \<noteq> ''token'') fs)
      \<and> get_prop (currentUser (fst (registerToken h c w (Obj fs)))) ''token'' = Inr Undefined
      \<and> getItem (fst (registerToken h c w (Obj fs))) (storage_key c AUTH_DATA_KEY)
          = Some (stringify_item h (Obj (filter (\<lambda>kv. fst kv \<noteq> ''token'') fs))))
   \<and> (map_of fs ''token'' = None \<longrightarrow> registerToken h c w (Obj fs) = (w, Inr ()))"
proof (intro conjI impI)
  assume a: "map_of fs ''token'' = Some (Obj tfs) \<and> map_of tfs ''token'' = Some (Str T)
      \<and> map_of tfs ''expire_at'' = Some E"
  let ?user = "Obj (filter (\<lambda>kv. fst kv \<noteq> ''token'') fs)"
  have run: "registerToken h c w (Obj fs) =
      (setCurrentUser h c
         (setItem (setItem w (storage_key c AUTH_TOKEN_KEY) (to_string h (Str T)))
            (storage_key c AUTH_TOKEN_EXPIRATION) (to_string h E)) ?user, Inr ())"
    by (rule registerToken_stores [where tok = "Obj tfs"]) (use a in simp_all)
  show "snd (registerToken h c w (Obj fs)) = Inr ()"
    by (simp add: run)
  show "getToken c (fst (registerToken h c w (Obj fs))) = Some T"
    by (simp add: run getToken_def getItem_def setCurrentUser_def setItem_def trigger_def
        Let_def storage_keys_distinct)
  show "getItem (fst (registerToken h c w (Obj fs))) (storage_key c AUTH_TOKEN_EXPIRATION)
      = Some (to_string h E)"
    by (simp add: run getItem_def setCurrentUser_def setItem_def trigger_def Let_def
        storage_keys_distinct)
  show "currentUser (fst (registerToken h c w (Obj fs))) = ?user"
    by (simp add: run setCurrentUser_def setItem_def trigger_def Let_def)
  then show "get_prop (currentUser (fst (registerToken h c w (Obj fs)))) ''token'' = Inr Undefined"
    by (simp add: map_of_without)
  show "getItem (fst (registerToken h c w (Obj fs))) (storage_key c AUTH_DATA_KEY)
      = Some (stringify_item h ?user)"
    by (simp add: run getItem_def setCurrentUser_def setItem_def trigger_def Let_def)
next
  assume "map_of fs ''token'' = None"
  then show "registerToken h c w (Obj fs) = (w, Inr ())"
    by (simp add: registerToken_def)
qed

lemma registerToken_no_token:
  "get_prop data ''token'' = Inr tok \<Longrightarrow> \<not> truthy tok \<Longrightarrow> registerToken h c w data = (w, Inr ())"
  by (simp add: registerToken_def)

theorem registerToken_round_trip_witness:
  "getToken example_client
       (fst (registerToken example_host example_client example_world example_login_response))
     = Some ''abc''
   \<and> getItem (fst (registerToken example_host example_client example_world example_login_response))
       (storage_key example_client AUTH_TOKEN_EXPIRATION) = Some ''2030-01-01 00:00:00''
   \<and> currentUser (fst (registerToken example_host example_client example_world example_login_response))
     = example_user
   \<and> registerToken example_host example_client example_world example_error_response
     = (example_world, Inr ())"
proof -
  let ?tfs = "[(''token'', Str ''abc''), (''expire_at'', Str ''2030-01-01 00:00:00'')]"
  let ?fs = "[(''_id'', Num 7), (''name'', Str ''ann''), (''token'', Obj ?tfs)]"
  have form: "map_of ?fs ''token'' = Some (Obj ?tfs) \<and> map_of ?tfs ''token'' = Some (Str ''abc'')
      \<and> map_of ?tfs ''expire_at'' = Some (Str ''2030-01-01 00:00:00'')"
    by simp
  have none: "map_of [(''error'', Str ''Invalid credentials.'')] ''token'' = None"
    by simp
  from registerToken_round_trip
      [where fs = ?fs and tfs = ?tfs and T = "''abc''" and E = "Str ''2030-01-01 00:00:00''"
         and h = example_host and c = example_client and w = example_world]
    form
  have "getToken example_client
         (fst (registerToken example_host example_client example_world (Obj ?fs))) = Some ''abc''
      \<and> getItem (fst (registerToken example_host example_client example_world (Obj ?fs)))
         (storage_key example_client AUTH_TOKEN_EXPIRATION)
           = Some (to_string example_host (Str ''2030-01-01 00:00:00''))
      \<and> currentUser (fst (registerToken example_host example_client example_world (Obj ?fs)))
           = Obj (filter (\<lambda>kv. fst kv \<noteq> ''token'') ?fs)"
    by blast
  moreover
  from registerToken_round_trip
      [where fs = "[(''error'', Str ''Invalid credentials.'')]"
         and h = example_host and c = example_client and w = example_world]
    none
  have "registerToken example_host example_client example_world
      (Obj [(''error'', Str ''Invalid credentials.'')]) = (example_world, Inr ())"
    by blast
  ultimately show ?thesis
    by (simp add: example_login_response_def example_error_response_def example_user_def)
qed


section \<open>Client: the payload\<close>

lemma raises_file_bearing: "raises h v \<Longrightarrow> file_bearing h v"
  by (cases v) auto

lemma scalar_not_file_bearing: "is_scalar v \<Longrightarrow> \<not> file_bearing h v"
  by (cases v) auto

lemma payload_field_worth:
  assumes "\<not> raises h v"
  shows "\<exists>formdata'. payload_field h field v (formdata, worth)
           = Inr (formdata', worth \<or> file_bearing h v)"
proof (cases v)
  case (InputElement s files)
  then show ?thesis by (cases files) auto
next
  case (CanvasElement u)
  with assms show ?thesis by auto
next
  case (BlobV b)
  with assms show ?thesis by (cases "blob_defined h") auto
qed auto

lemma payload_fields_worth:
  assumes "\<forall>kv\<in>set fs. \<not> raises h (snd kv)"
  shows "\<exists>formdata'. payload_fields h fs (formdata, worth)
           = Inr (formdata', worth \<or> (\<exists>kv\<in>set fs. file_bearing h (snd kv)))"
  using assms
proof (induction fs arbitrary: formdata worth)
  case Nil
  then show ?case by simp
next
  case (Cons kv fs)
  from Cons.prems have "\<not> raises h (snd kv)" by simp
  then obtain fd1 where step: "payload_field h (fst kv) (snd kv) (formdata, worth)
      = Inr (fd1, worth \<or> file_bearing h (snd kv))"
    using payload_field_worth by blast
  from Cons.prems have "\<forall>kv\<in>set fs. \<not> raises h (snd kv)" by simp
  from Cons.IH [OF this, of fd1 "worth \<or> file_bearing h (snd kv)"]
  obtain fd2 where "payload_fields h fs (fd1, worth \<or> file_bearing h (snd kv))
      = Inr (fd2, (worth \<or> file_bearing h (snd kv)) \<or> (\<exists>kv\<in>set fs. file_bearing h (snd kv)))"
    by blast
  with step show ?case by (auto simp add: disj_assoc)
qed

lemma getPayload_multipart:
  assumes "method \<noteq> ''GET''" and "\<exists>kv\<in>set fs. file_bearing h (snd kv)"
    and "\<forall>kv\<in>set fs. \<not> raises h (snd kv)"
  shows "\<exists>form. getPayload h method (Obj fs) = Inr (FormData form)"
proof -
  from payload_fields_worth [OF assms(3), of "[]" False] assms(2)
  obtain form where "payload_fields h fs ([], False) = Inr (form, True)"
    by auto
  with assms(1) have "getPayload h method (Obj fs) = Inr (FormData form)"
    by (simp add: getPayload_def multipart_payload_def)
  then show ?thesis ..
qed

text \<open>Without a file-bearing field the payload is the JSON text, or \<open>null\<close>.\<close>

lemma getPayload_json:
  assumes "\<forall>kv\<in>set fs. \<not> file_bearing h (snd kv)"
  shows "getPayload h method (Obj fs) =
           (let json = ''{'' @ join '','' (serialize_members h True fs) @ ''}'' in
            if json = ''{}'' then Inr Null
            else Inr (Str (if method = ''GET'' then encodeURIComponent json else json)))"
proof -
  from assms have "\<forall>kv\<in>set fs. \<not> raises h (snd kv)"
    using raises_file_bearing by blast
  from payload_fields_worth [OF this, of "[]" False] assms
  obtain form where "payload_fields h fs ([], False) = Inr (form, False)"
    by auto
  then show ?thesis
    by (simp add: getPayload_def multipart_payload_def Let_def)
qed

lemma request_sends:
  assumes "getPayload h (if verb \<noteq> ''GET'' \<and> verb \<noteq> ''POST'' \<and> truthy (method_override c)
              then ''POST'' else verb) data = Inr payload"
  shows "\<exists>r. request h c w segments verb data = (w\<lparr>sent := sent w @ [r]\<rparr>, Inr (Promise []))
           \<and> req_body r = (if verb = ''GET'' then None else Some payload)
           \<and> req_headers r ''Content-Type'' = Some ''text/json''"
  using assms by (auto simp add: request_def fetch_def Let_def)

text \<open>
  C1 (as the code has it). A request with a verb other than GET whose data object has
  a file-bearing field, and no field on which the loop raises, is dispatched with the
  multipart form as its body, and with the header \<open>Content-Type: text/json\<close>, which
  \<open>request\<close> sets on every request before it looks at the payload. A request whose
  data object has only scalar fields is dispatched with a body that is not multipart.
\<close>

theorem request_multipart_body:
  "(verb \<noteq> ''GET'' \<and> (\<exists>kv\<in>set fs. file_bearing h (snd kv))
      \<and> (\<forall>kv\<in>set fs. \<not> raises h (snd kv)) \<longrightarrow>
      (\<exists>r form. request h c w segments verb (Obj fs)
           = (w\<lparr>sent := sent w @ [r]\<rparr>, Inr (Promise []))
         \<and> req_body r = Some (FormData form)
         \<and> req_headers r ''Content-Type'' = Some ''text/json''))
   \<and> ((\<forall>kv\<in>set fs. is_scalar (snd kv)) \<longrightarrow>
      (\<exists>r. request h c w segments verb (Obj fs)
           = (w\<lparr>sent := sent w @ [r]\<rparr>, Inr (Promise []))
         \<and> (\<forall>form. req_body r \<noteq> Some (FormData form))
         \<and> req_headers r ''Content-Type'' = Some ''text/json''))"
proof (intro conjI impI)
  let ?dispatched = "if verb \<noteq> ''GET'' \<and> verb \<noteq> ''POST'' \<and> truthy (method_override c)
    then ''POST'' else verb"
  assume a: "verb \<noteq> ''GET'' \<and> (\<exists>kv\<in>set fs. file_bearing h (snd kv))
      \<and> (\<forall>kv\<in>set fs. \<not> raises h (snd kv))"
  then have "?dispatched \<noteq> ''GET''" by simp
  with a obtain form where "getPayload h ?dispatched (Obj fs) = Inr (FormData form)"
    using getPayload_multipart by blast
  from request_sends [OF this, of w segments]
  obtain r where "request h c w segments verb (Obj fs)
        = (w\<lparr>sent := sent w @ [r]\<rparr>, Inr (Promise []))"
    and "req_body r = (if verb = ''GET'' then None else Some (FormData form))"
    and "req_headers r ''Content-Type'' = Some ''text/json''"
    by blast
  with a have "request h c w segments verb (Obj fs)
        = (w\<lparr>sent := sent w @ [r]\<rparr>, Inr (Promise []))
      \<and> req_body r = Some (FormData form)
      \<and> req_headers r ''Content-Type'' = Some ''text/json''"
    by simp
  then show "\<exists>r form. request h c w segments verb (Obj fs)
           = (w\<lparr>sent := sent w @ [r]\<rparr>, Inr (Promise []))
         \<and> req_body r = Some (FormData form)
         \<and> req_headers r ''Content-Type'' = Some ''text/json''"
    by blast
next
  let ?dispatched = "if verb \<noteq> ''GET'' \<and> verb \<noteq> ''POST'' \<and> truthy (method_override c)
    then ''POST'' else verb"
  assume "\<forall>kv\<in>set fs. is_scalar (snd kv)"
  then have "\<forall>kv\<in>set fs. \<not> file_bearing h (snd kv)"
    using scalar_not_file_bearing by blast
  from getPayload_json [OF this, of ?dispatched]
  obtain payload where p: "getPayload h ?dispatched (Obj fs) = Inr payload"
    and "\<not> is_formdata payload"
    by (auto simp add: Let_def split: if_splits)
  then have plain: "payload \<noteq> FormData form" for form
    by auto
  from request_sends [OF p, of w segments]
  obtain r where run: "request h c w segments verb (Obj fs)
        = (w\<lparr>sent := sent w @ [r]\<rparr>, Inr (Promise []))"
    and body: "req_body r = (if verb = ''GET'' then None else Some payload)"
    and type: "req_headers r ''Content-Type'' = Some ''text/json''"
    by blast
  from body plain have "req_body r \<noteq> Some (FormData form)" for form
    by (cases "verb = ''GET''") simp_all
  with run type
  have "request h c w segments verb (Obj fs)
        = (w\<lparr>sent := sent w @ [r]\<rparr>, Inr (Promise []))
      \<and> (\<forall>form. req_body r \<noteq> Some (FormData form))
      \<and> req_headers r ''Content-Type'' = Some ''text/json''"
    by blast
  then show "\<exists>r. request h c w segments verb (Obj fs)
           = (w\<lparr>sent := sent w @ [r]\<rparr>, Inr (Promise []))
         \<and> (\<forall>form. req_body r \<noteq> Some (FormData form))
         \<and> req_headers r ''Content-Type'' = Some ''text/json''"
    by blast
qed


theorem request_multipart_body_witness:
  "(\<exists>r form. request example_host example_client example_world ''files'' ''PUT''
         (Obj [(''f'', BlobV (Blob ''image/png'')), (''a'', Num 3)])
           = (example_world\<lparr>sent := sent example_world @ [r]\<rparr>, Inr (Promise []))
       \<and> req_body r = Some (FormData form)
       \<and> req_headers r ''Content-Type'' = Some ''text/json'')
   \<and> (\<exists>r. request example_host example_client example_world ''items'' ''POST''
         (Obj [(''a'', Num 1), (''b'', Str ''x'')])
           = (example_world\<lparr>sent := sent example_world @ [r]\<rparr>, Inr (Promise []))
       \<and> (\<forall>form. req_body r \<noteq> Some (FormData form))
       \<and> req_headers r ''Content-Type'' = Some ''text/json'')"
proof -
  let ?files = "[(''f'', BlobV (Blob ''image/png'')), (''a'', Num 3)]"
  let ?scalars = "[(''a'', Num 1), (''b'', Str ''x'')]"
  have files: "''PUT'' \<noteq> ''GET'' \<and> (\<exists>kv\<in>set ?files. file_bearing example_host (snd kv))
      \<and> (\<forall>kv\<in>set ?files. \<not> raises example_host (snd kv))"
    by (simp add: example_host_def blob_extension_def)
  have scalars: "\<forall>kv\<in>set ?scalars. is_scalar (snd kv)"
    by simp
  from request_multipart_body
      [where verb = "''PUT''" and fs = ?files and h = example_host and c = example_client
         and w = example_world and segments = "''files''"]
    files
  have "\<exists>r form. request example_host example_client example_world ''files'' ''PUT'' (Obj ?files)
           = (example_world\<lparr>sent := sent example_world @ [r]\<rparr>, Inr (Promise []))
       \<and> req_body r = Some (FormData form)
       \<and> req_headers r ''Content-Type'' = Some ''text/json''"
    by blast
  moreover
  from request_multipart_body
      [where verb = "''POST''" and fs = ?scalars and h = example_host and c = example_client
         and w = example_world and segments = "''items''"]
    scalars
  have "\<exists>r. request example_host example_client example_world ''items'' ''POST'' (Obj ?scalars)
           = (example_world\<lparr>sent := sent example_world @ [r]\<rparr>, Inr (Promise []))
       \<and> (\<forall>form. req_body r \<noteq> Some (FormData form))
       \<and> req_headers r ''Content-Type'' = Some ''text/json''"
    by blast
  ultimately show ?thesis
    by blast
qed

text \<open>
  The claim of C1 fails: a POST whose data holds a Blob is dispatched with the
  multipart form as its body and with the header \<open>Content-Type: text/json\<close>.
\<close>

theorem multipart_request_has_json_content_type:
  "file_bearing example_host (BlobV (Blob ''image/png''))
   \<and> req_method (hd (sent (fst (request example_host example_client example_world ''files''
        ''POST'' (Obj [(''f'', BlobV (Blob ''image/png''))])))))
       = ''POST''
   \<and> req_body (hd (sent (fst (request example_host example_client example_world ''files''
        ''POST'' (Obj [(''f'', BlobV (Blob ''image/png''))])))))
       = Some (FormData [FileEntry ''f'' (Blob ''image/png'') ''blob.png''])
   \<and> req_headers (hd (sent (fst (request example_host example_client example_world ''files''
        ''POST'' (Obj [(''f'', BlobV (Blob ''image/png''))])))))
        ''Content-Type''
       = Some ''text/json''"
proof -
  have enc: "getPayload example_host ''POST'' (Obj [(''f'', BlobV (Blob ''image/png''))])
      = Inr (FormData [FileEntry ''f'' (Blob ''image/png'') ''blob.png''])"
    by code_simp
  have fb: "blob_defined example_host"
    by (simp add: example_host_def)
  show ?thesis
    by (simp add: fb request_def fetch_def Let_def enc example_sent)
qed


section \<open>Client: dates in the JSON payload\<close>

lemma digit_char_decimal: "d < 10 \<Longrightarrow> digit_char d \<in> set ''0123456789''"
  unfolding digit_char_def by (rule nth_mem) simp

lemma show_nat_decimal: "set (show_nat n) \<subseteq> set ''0123456789''"
proof (induction n rule: show_nat.induct)
  case (1 n)
  show ?case
  proof (cases "n < 10")
    case True
    then show ?thesis
      using digit_char_decimal [of n] by (subst show_nat.simps) simp
  next
    case False
    have "n mod 10 < 10" by simp
    from digit_char_decimal [OF this] "1.IH" [OF False] False show ?thesis
      by (subst show_nat.simps) simp
  qed
qed

lemma show_int_decimal: "set (show_int i) \<subseteq> set ''-0123456789''"
proof -
  have sign: "set ''-0123456789'' = insert CHR ''-'' (set ''0123456789'')"
    by (simp only: list.set)
  show ?thesis
  proof (cases "i < 0")
    case True
    then have "set (show_int i) = insert CHR ''-'' (set (show_nat (nat (- i))))"
      by (simp only: show_int_def if_True list.set)
    also have "\<dots> \<subseteq> insert CHR ''-'' (set ''0123456789'')"
      by (rule insert_mono) (rule show_nat_decimal)
    finally show ?thesis
      by (simp only: sign)
  next
    case False
    then have "set (show_int i) = set (show_nat (nat i))"
      by (simp only: show_int_def if_False)
    also have "\<dots> \<subseteq> insert CHR ''-'' (set ''0123456789'')"
      by (rule subset_insertI2) (rule show_nat_decimal)
    finally show ?thesis
      by (simp only: sign)
  qed
qed

lemma round_seconds_nearest:
  "1000 * round_seconds t - 500 \<le> t \<and> t < 1000 * round_seconds t + 500"
proof -
  define q r where "q = (t + 500) div 1000" and "r = (t + 500) mod 1000"
  have "t + 500 = 1000 * q + r"
    unfolding q_def r_def by simp
  moreover have "0 \<le> r" and "r < 1000"
    unfolding r_def by simp_all
  ultimately have "1000 * q - 500 \<le> t \<and> t < 1000 * q + 500"
    by linarith
  then show ?thesis
    unfolding round_seconds_def q_def .
qed

lemma serialize_members_date:
  "(k, Date (Some t)) \<in> set fs \<Longrightarrow>
     json_quote k @ '':'' @ show_int (round_seconds t) \<in> set (serialize_members h True fs)"
  by (induction fs) (auto split: option.splits)

lemma join_not_empty: "xs \<noteq> [] \<Longrightarrow> \<forall>x\<in>set xs. x \<noteq> [] \<Longrightarrow> join sep xs \<noteq> []"
  by (induction sep xs rule: join.induct) auto

lemma serialize_members_not_empty: "x \<in> set (serialize_members h dates fs) \<Longrightarrow> x \<noteq> []"
  by (induction fs) (auto simp add: json_quote_def split: option.splits)

lemma object_with_member_not_empty_literal:
  assumes "x \<in> set (serialize_members h dates fs)"
  shows "''{'' @ join '','' (serialize_members h dates fs) @ ''}'' \<noteq> ''{}''"
proof -
  from assms have "serialize_members h dates fs \<noteq> []" by auto
  then have "join '','' (serialize_members h dates fs) \<noteq> []"
    using serialize_members_not_empty by (intro join_not_empty) blast+
  then show ?thesis by simp
qed

text \<open>
  C9. Let a data object have no file-bearing field, so that it is serialized as JSON,
  and a field \<open>k\<close> holding a date with the time value \<open>t\<close> milliseconds. Then the
  payload is the JSON text of the object (percent-encoded for GET), the member of
  \<open>k\<close> in that text is \<open>"k":n\<close> where \<open>n\<close> is written in decimal digits, without
  quotes, and \<open>n\<close> is \<open>t / 1000\<close> rounded to the nearest integer: the date's Unix-epoch
  seconds.
\<close>

theorem date_field_epoch_seconds:
  assumes "(k, Date (Some t)) \<in> set fs" and "\<forall>kv\<in>set fs. \<not> file_bearing h (snd kv)"
  shows "getPayload h verb (Obj fs) =
           Inr (Str (if verb = ''GET''
                     then encodeURIComponent (''{'' @ join '','' (serialize_members h True fs) @ ''}'')
                     else ''{'' @ join '','' (serialize_members h True fs) @ ''}''))
       \<and> json_quote k @ '':'' @ show_int (round_seconds t) \<in> set (serialize_members h True fs)
       \<and> set (show_int (round_seconds t)) \<subseteq> set ''-0123456789''
       \<and> 1000 * round_seconds t - 500 \<le> t \<and> t < 1000 * round_seconds t + 500"
proof -
  have member: "json_quote k @ '':'' @ show_int (round_seconds t)
      \<in> set (serialize_members h True fs)"
    using assms(1) by (rule serialize_members_date)
  then have "''{'' @ join '','' (serialize_members h True fs) @ ''}'' \<noteq> ''{}''"
    by (rule object_with_member_not_empty_literal)
  with getPayload_json [OF assms(2), of verb]
  have payload: "getPayload h verb (Obj fs) =
           Inr (Str (if verb = ''GET''
                     then encodeURIComponent (''{'' @ join '','' (serialize_members h True fs) @ ''}'')
                     else ''{'' @ join '','' (serialize_members h True fs) @ ''}''))"
    by (simp add: Let_def)
  have nearest: "1000 * round_seconds t - 500 \<le> t \<and> t < 1000 * round_seconds t + 500"
    by (rule round_seconds_nearest)
  have digits: "set (show_int (round_seconds t)) \<subseteq> set ''-0123456789''"
    by (rule show_int_decimal)
  from payload member digits nearest show ?thesis
    by (simp only: simp_thms)
qed

theorem date_field_epoch_seconds_witness:
  \<open>getPayload example_host ''POST'' (Obj [(''name'', Str ''ann''), (''born'', Date (Some 1500))])
     = Inr (Str ''{"name":"ann","born":2}'')
   \<and> getPayload example_host ''GET'' (Obj [(''born'', Date (Some 1500))])
     = Inr (Str ''%7B%22born%22%3A2%7D'')\<close>
proof -
  let ?fs = "[(''name'', Str ''ann''), (''born'', Date (Some 1500))]"
  let ?gs = "[(''born'', Date (Some 1500))]"
  have a: "(''born'', Date (Some 1500)) \<in> set ?fs" by simp
  have b: "\<forall>kv\<in>set ?fs. \<not> file_bearing example_host (snd kv)" by simp
  have c: "(''born'', Date (Some 1500)) \<in> set ?gs" by simp
  have d: "\<forall>kv\<in>set ?gs. \<not> file_bearing example_host (snd kv)" by simp
  have e: \<open>''{'' @ join '','' (serialize_members example_host True ?fs) @ ''}''
      = ''{"name":"ann","born":2}''\<close>
    by code_simp
  have f: \<open>encodeURIComponent (''{'' @ join '','' (serialize_members example_host True ?gs) @ ''}'')
      = ''%7B%22born%22%3A2%7D''\<close>
    by code_simp
  have post: "(if ''POST'' = ''GET'' then x else y) = y" for x y :: string
    by simp
  from date_field_epoch_seconds [OF a b, of "''POST''", THEN conjunct1]
  have "getPayload example_host ''POST'' (Obj ?fs)
      = Inr (Str (''{'' @ join '','' (serialize_members example_host True ?fs) @ ''}''))"
    by (simp only: post)
  moreover
  from date_field_epoch_seconds [OF c d, of "''GET''", THEN conjunct1]
  have "getPayload example_host ''GET'' (Obj ?gs)
      = Inr (Str (encodeURIComponent
          (''{'' @ join '','' (serialize_members example_host True ?gs) @ ''}'')))"
    by (simp only: simp_thms if_True)
  ultimately show ?thesis
    by (simp only: e f)
qed


section \<open>Client: method override\<close>

lemma payload_field_raises:
  assumes "raises h v"
  shows "\<exists>e. payload_field h field v (formdata, worth) = Inl e"
  using assms by (cases v) (auto split: option.splits)

lemma payload_fields_raises:
  assumes "\<exists>kv\<in>set fs. raises h (snd kv)"
  shows "\<exists>e. payload_fields h fs (formdata, worth) = Inl e"
  using assms
proof (induction fs arbitrary: formdata worth)
  case Nil
  then show ?case by simp
next
  case (Cons kv fs)
  show ?case
  proof (cases "raises h (snd kv)")
    case True
    from payload_field_raises [OF this, of "fst kv" formdata worth]
    show ?thesis by auto
  next
    case False
    from payload_field_worth [OF this, of "fst kv" formdata worth]
    obtain fd1 where step: "payload_field h (fst kv) (snd kv) (formdata, worth)
        = Inr (fd1, worth \<or> file_bearing h (snd kv))"
      by blast
    from Cons.prems False have "\<exists>kv\<in>set fs. raises h (snd kv)"
      by simp
    from Cons.IH [OF this, of fd1 "worth \<or> file_bearing h (snd kv)"] step
    show ?thesis by simp
  qed
qed

text \<open>
  \<open>getPayload\<close> raises exactly on data that is truthy and not a FormData, with a verb
  other than GET, when the loop meets a field on which it raises.
\<close>

lemma getPayload_raises_iff:
  "(\<exists>e. getPayload h method data = Inl e) \<longleftrightarrow>
     truthy data \<and> \<not> is_formdata data \<and> method \<noteq> ''GET''
     \<and> (\<exists>kv\<in>set (enumerate_props h data). raises h (snd kv))"
proof (cases "truthy data \<and> \<not> is_formdata data \<and> method \<noteq> ''GET''")
  case False
  then show ?thesis
    by (auto simp add: getPayload_def multipart_payload_def Let_def)
next
  case enters: True
  show ?thesis
  proof (cases "\<exists>kv\<in>set (enumerate_props h data). raises h (snd kv)")
    case True
    from payload_fields_raises [OF this, of "[]" False]
    obtain e where "payload_fields h (enumerate_props h data) ([], False) = Inl e"
      by blast
    with enters have "getPayload h method data = Inl e"
      by (simp add: getPayload_def multipart_payload_def)
    with enters True show ?thesis by blast
  next
    case False
    then have "\<forall>kv\<in>set (enumerate_props h data). \<not> raises h (snd kv)"
      by blast
    from payload_fields_worth [OF this, of "[]" False]
    obtain form worth where "payload_fields h (enumerate_props h data) ([], False)
        = Inr (form, worth)"
      by blast
    with enters have "\<exists>p. getPayload h method data = Inr p"
      by (simp add: getPayload_def multipart_payload_def Let_def)
    with False show ?thesis by auto
  qed
qed

lemma getHeaders_no_override: "getHeaders c w ''X-HTTP-Method-Override'' = None"
  by (simp add: getHeaders_def Let_def split: option.splits)


lemma example_plain_endpoint: "endpoint example_plain_client = ''http://hook.dev/''"
  by (simp add: example_plain_client_def example_client_def)

text \<open>
  C6. \<open>request\<close> raises exactly when \<open>getPayload\<close> raises, which it does only for a
  verb other than GET on data with a field on which the loop raises, and then before
  any \<open>fetch\<close>; otherwise it dispatches one request. With a verb that is neither GET
  nor POST and method override enabled, the request dispatched is a POST with the
  header \<open>X-HTTP-Method-Override\<close> carrying the verb, and the payload encoded as for
  POST as its body. With method override disabled the request has the verb unchanged
  and no such header. A POST and a GET are dispatched as they are, without the header.
\<close>

theorem request_method_override:
  "(verb \<noteq> ''GET'' \<and> verb \<noteq> ''POST'' \<and> truthy (method_override c) \<longrightarrow>
      request h c w segments verb data =
        (case getPayload h ''POST'' data of
           Inl e \<Rightarrow> (w, Inl e)
         | Inr payload \<Rightarrow>
             (w\<lparr>sent := sent w @
                 [\<lparr>req_url = endpoint c @ segments, req_method = ''POST'',
                   req_headers = (getHeaders c w)
                     (''Content-Type'' \<mapsto> ''text/json'', ''X-HTTP-Method-Override'' \<mapsto> verb),
                   req_body = Some payload\<rparr>]\<rparr>,
              Inr (Promise []))))
   \<and> (verb \<noteq> ''GET'' \<and> verb \<noteq> ''POST'' \<and> \<not> truthy (method_override c) \<longrightarrow>
      request h c w segments verb data =
        (case getPayload h verb data of
           Inl e \<Rightarrow> (w, Inl e)
         | Inr payload \<Rightarrow>
             (w\<lparr>sent := sent w @
                 [\<lparr>req_url = endpoint c @ segments, req_method = verb,
                   req_headers = (getHeaders c w)(''Content-Type'' \<mapsto> ''text/json''),
                   req_body = Some payload\<rparr>]\<rparr>,
              Inr (Promise []))))
   \<and> (verb = ''POST'' \<longrightarrow>
      request h c w segments verb data =
        (case getPayload h ''POST'' data of
           Inl e \<Rightarrow> (w, Inl e)
         | Inr payload \<Rightarrow>
             (w\<lparr>sent := sent w @
                 [\<lparr>req_url = endpoint c @ segments, req_method = ''POST'',
                   req_headers = (getHeaders c w)(''Content-Type'' \<mapsto> ''text/json''),
                   req_body = Some payload\<rparr>]\<rparr>,
              Inr (Promise []))))
   \<and> (verb = ''GET'' \<longrightarrow>
      (\<exists>payload. getPayload h ''GET'' data = Inr payload
         \<and> request h c w segments verb data =
             (w\<lparr>sent := sent w @
                 [\<lparr>req_url = endpoint c @ segments @ ''?'' @ to_string h payload,
                   req_method = ''GET'',
                   req_headers = (getHeaders c w)(''Content-Type'' \<mapsto> ''text/json''),
                   req_body = None\<rparr>]\<rparr>,
              Inr (Promise []))))
   \<and> getHeaders c w ''X-HTTP-Method-Override'' = None
   \<and> ((\<exists>e. snd (request h c w segments verb data) = Inl e) \<longleftrightarrow>
        verb \<noteq> ''GET'' \<and> truthy data \<and> \<not> is_formdata data
        \<and> (\<exists>kv\<in>set (enumerate_props h data). raises h (snd kv)))"
proof -
  let ?dispatched = "if verb \<noteq> ''GET'' \<and> verb \<noteq> ''POST'' \<and> truthy (method_override c)
    then ''POST'' else verb"
  have rewritten: "verb \<noteq> ''GET'' \<and> verb \<noteq> ''POST'' \<and> truthy (method_override c) \<longrightarrow>
      request h c w segments verb data =
        (case getPayload h ''POST'' data of
           Inl e \<Rightarrow> (w, Inl e)
         | Inr payload \<Rightarrow>
             (w\<lparr>sent := sent w @
                 [\<lparr>req_url = endpoint c @ segments, req_method = ''POST'',
                   req_headers = (getHeaders c w)
                     (''Content-Type'' \<mapsto> ''text/json'', ''X-HTTP-Method-Override'' \<mapsto> verb),
                   req_body = Some payload\<rparr>]\<rparr>,
              Inr (Promise [])))"
    by (simp add: request_def fetch_def Let_def split: sum.splits)
  have unchanged: "verb \<noteq> ''GET'' \<and> verb \<noteq> ''POST'' \<and> \<not> truthy (method_override c) \<longrightarrow>
      request h c w segments verb data =
        (case getPayload h verb data of
           Inl e \<Rightarrow> (w, Inl e)
         | Inr payload \<Rightarrow>
             (w\<lparr>sent := sent w @
                 [\<lparr>req_url = endpoint c @ segments, req_method = verb,
                   req_headers = (getHeaders c w)(''Content-Type'' \<mapsto> ''text/json''),
                   req_body = Some payload\<rparr>]\<rparr>,
              Inr (Promise [])))"
    by (simp add: request_def fetch_def Let_def split: sum.splits)
  have post: "verb = ''POST'' \<longrightarrow>
      request h c w segments verb data =
        (case getPayload h ''POST'' data of
           Inl e \<Rightarrow> (w, Inl e)
         | Inr payload \<Rightarrow>
             (w\<lparr>sent := sent w @
                 [\<lparr>req_url = endpoint c @ segments, req_method = ''POST'',
                   req_headers = (getHeaders c w)(''Content-Type'' \<mapsto> ''text/json''),
                   req_body = Some payload\<rparr>]\<rparr>,
              Inr (Promise [])))"
    by (simp add: request_def fetch_def Let_def split: sum.splits)
  have "\<not> (\<exists>e. getPayload h ''GET'' data = Inl e)"
    by (simp only: getPayload_raises_iff) simp
  then obtain p where p: "getPayload h ''GET'' data = Inr p"
    by (cases "getPayload h ''GET'' data") auto
  have get: "verb = ''GET'' \<longrightarrow>
      (\<exists>payload. getPayload h ''GET'' data = Inr payload
         \<and> request h c w segments verb data =
             (w\<lparr>sent := sent w @
                 [\<lparr>req_url = endpoint c @ segments @ ''?'' @ to_string h payload,
                   req_method = ''GET'',
                   req_headers = (getHeaders c w)(''Content-Type'' \<mapsto> ''text/json''),
                   req_body = None\<rparr>]\<rparr>,
              Inr (Promise [])))"
    using p by (simp add: request_def fetch_def Let_def)
  have "(\<exists>e. snd (request h c w segments verb data) = Inl e)
      \<longleftrightarrow> (\<exists>e. getPayload h ?dispatched data = Inl e)"
    by (cases "getPayload h ?dispatched data")
      (simp_all add: request_def fetch_def Let_def)
  also have "\<dots> \<longleftrightarrow> truthy data \<and> \<not> is_formdata data \<and> ?dispatched \<noteq> ''GET''
      \<and> (\<exists>kv\<in>set (enumerate_props h data). raises h (snd kv))"
    by (rule getPayload_raises_iff)
  also have "?dispatched \<noteq> ''GET'' \<longleftrightarrow> verb \<noteq> ''GET''"
    by simp
  finally have raising: "(\<exists>e. snd (request h c w segments verb data) = Inl e) \<longleftrightarrow>
        verb \<noteq> ''GET'' \<and> truthy data \<and> \<not> is_formdata data
        \<and> (\<exists>kv\<in>set (enumerate_props h data). raises h (snd kv))"
    by blast
  from rewritten unchanged post get getHeaders_no_override [of c w] raising
  show ?thesis
    by (intro conjI)
qed

theorem request_method_override_witness:
  "request example_host example_client example_world ''items/7'' ''DELETE'' (Obj [(''id'', Num 7)])
     = (example_world\<lparr>sent := sent example_world @
          [\<lparr>req_url = ''http://hook.dev/items/7'', req_method = ''POST'',
            req_headers = (getHeaders example_client example_world)
              (''Content-Type'' \<mapsto> ''text/json'', ''X-HTTP-Method-Override'' \<mapsto> ''DELETE''),
            req_body = Some (Str ''{\"id\":7}'')\<rparr>]\<rparr>, Inr (Promise []))
   \<and> request example_host example_plain_client example_world ''items/7'' ''DELETE''
       (Obj [(''id'', Num 7)])
     = (example_world\<lparr>sent := sent example_world @
          [\<lparr>req_url = ''http://hook.dev/items/7'', req_method = ''DELETE'',
            req_headers = (getHeaders example_plain_client example_world)
              (''Content-Type'' \<mapsto> ''text/json''),
            req_body = Some (Str ''{\"id\":7}'')\<rparr>]\<rparr>, Inr (Promise []))
   \<and> request example_host example_client example_world ''items'' ''POST'' (Obj [(''id'', Num 7)])
     = (example_world\<lparr>sent := sent example_world @
          [\<lparr>req_url = ''http://hook.dev/items'', req_method = ''POST'',
            req_headers = (getHeaders example_client example_world)
              (''Content-Type'' \<mapsto> ''text/json''),
            req_body = Some (Str ''{\"id\":7}'')\<rparr>]\<rparr>, Inr (Promise []))
   \<and> request example_host example_client example_world ''items'' ''GET'' (Obj [(''id'', Num 7)])
     = (example_world\<lparr>sent := sent example_world @
          [\<lparr>req_url = ''http://hook.dev/items?%7B%22id%22%3A7%7D'', req_method = ''GET'',
            req_headers = (getHeaders example_client example_world)
              (''Content-Type'' \<mapsto> ''text/json''),
            req_body = None\<rparr>]\<rparr>, Inr (Promise []))
   \<and> request example_host example_client example_world ''files'' ''DELETE''
       (Obj [(''f'', BlobV (Blob []))])
     = (example_world, Inl TypeError)
   \<and> getHeaders example_client example_world ''X-HTTP-Method-Override'' = None"
proof -
  let ?d = "Obj [(''id'', Num 7)]"
  let ?untyped = "Obj [(''f'', BlobV (Blob []))]"
  have on: "''DELETE'' \<noteq> ''GET'' \<and> ''DELETE'' \<noteq> ''POST'' \<and> truthy (method_override example_client)"
    by (simp add: example_client_def)
  have off: "''DELETE'' \<noteq> ''GET'' \<and> ''DELETE'' \<noteq> ''POST''
      \<and> \<not> truthy (method_override example_plain_client)"
    by (simp add: example_plain_client_def)
  have enc_post: "getPayload example_host ''POST'' ?d = Inr (Str ''{\"id\":7}'')"
    by code_simp
  have enc_delete: "getPayload example_host ''DELETE'' ?d = Inr (Str ''{\"id\":7}'')"
    by code_simp
  have enc_get: "getPayload example_host ''GET'' ?d = Inr (Str ''%7B%22id%22%3A7%7D'')"
    by code_simp
  have enc_untyped: "getPayload example_host ''POST'' ?untyped = Inl TypeError"
    by code_simp
  note t = request_method_override [where h = example_host and w = example_world]
  from t [where c = example_client and verb = "''DELETE''" and data = ?d
      and segments = "''items/7''"] on
  have "request example_host example_client example_world ''items/7'' ''DELETE'' ?d =
      (case getPayload example_host ''POST'' ?d of
         Inl e \<Rightarrow> (example_world, Inl e)
       | Inr payload \<Rightarrow>
           (example_world\<lparr>sent := sent example_world @
               [\<lparr>req_url = endpoint example_client @ ''items/7'', req_method = ''POST'',
                 req_headers = (getHeaders example_client example_world)
                   (''Content-Type'' \<mapsto> ''text/json'', ''X-HTTP-Method-Override'' \<mapsto> ''DELETE''),
                 req_body = Some payload\<rparr>]\<rparr>,
            Inr (Promise [])))"
    by blast
  then have rewritten:
    "request example_host example_client example_world ''items/7'' ''DELETE'' ?d
     = (example_world\<lparr>sent := sent example_world @
          [\<lparr>req_url = ''http://hook.dev/items/7'', req_method = ''POST'',
            req_headers = (getHeaders example_client example_world)
              (''Content-Type'' \<mapsto> ''text/json'', ''X-HTTP-Method-Override'' \<mapsto> ''DELETE''),
            req_body = Some (Str ''{\"id\":7}'')\<rparr>]\<rparr>, Inr (Promise []))"
    by (simp add: enc_post example_endpoint)
  from t [where c = example_plain_client and verb = "''DELETE''" and data = ?d
      and segments = "''items/7''"] off
  have "request example_host example_plain_client example_world ''items/7'' ''DELETE'' ?d =
      (case getPayload example_host ''DELETE'' ?d of
         Inl e \<Rightarrow> (example_world, Inl e)
       | Inr payload \<Rightarrow>
           (example_world\<lparr>sent := sent example_world @
               [\<lparr>req_url = endpoint example_plain_client @ ''items/7'', req_method = ''DELETE'',
                 req_headers = (getHeaders example_plain_client example_world)
                   (''Content-Type'' \<mapsto> ''text/json''),
                 req_body = Some payload\<rparr>]\<rparr>,
            Inr (Promise [])))"
    by blast
  then have unchanged:
    "request example_host example_plain_client example_world ''items/7'' ''DELETE'' ?d
     = (example_world\<lparr>sent := sent example_world @
          [\<lparr>req_url = ''http://hook.dev/items/7'', req_method = ''DELETE'',
            req_headers = (getHeaders example_plain_client example_world)
              (''Content-Type'' \<mapsto> ''text/json''),
            req_body = Some (Str ''{\"id\":7}'')\<rparr>]\<rparr>, Inr (Promise []))"
    by (simp add: enc_delete example_plain_endpoint)
  from t [where c = example_client and verb = "''POST''" and data = ?d
      and segments = "''items''"]
  have "request example_host example_client example_world ''items'' ''POST'' ?d =
      (case getPayload example_host ''POST'' ?d of
         Inl e \<Rightarrow> (example_world, Inl e)
       | Inr payload \<Rightarrow>
           (example_world\<lparr>sent := sent example_world @
               [\<lparr>req_url = endpoint example_client @ ''items'', req_method = ''POST'',
                 req_headers = (getHeaders example_client example_world)
                   (''Content-Type'' \<mapsto> ''text/json''),
                 req_body = Some payload\<rparr>]\<rparr>,
            Inr (Promise [])))"
    by blast
  then have post:
    "request example_host example_client example_world ''items'' ''POST'' ?d
     = (example_world\<lparr>sent := sent example_world @
          [\<lparr>req_url = ''http://hook.dev/items'', req_method = ''POST'',
            req_headers = (getHeaders example_client example_world)
              (''Content-Type'' \<mapsto> ''text/json''),
            req_body = Some (Str ''{\"id\":7}'')\<rparr>]\<rparr>, Inr (Promise []))"
    by (simp add: enc_post example_endpoint)
  from t [where c = example_client and verb = "''GET''" and data = ?d
      and segments = "''items''"]
  obtain payload where encoded: "getPayload example_host ''GET'' ?d = Inr payload"
    and run: "request example_host example_client example_world ''items'' ''GET'' ?d =
           (example_world\<lparr>sent := sent example_world @
               [\<lparr>req_url = endpoint example_client @ ''items'' @ ''?''
                    @ to_string example_host payload,
                 req_method = ''GET'',
                 req_headers = (getHeaders example_client example_world)
                   (''Content-Type'' \<mapsto> ''text/json''),
                 req_body = None\<rparr>]\<rparr>,
            Inr (Promise []))"
    by blast
  from encoded enc_get have "payload = Str ''%7B%22id%22%3A7%7D''"
    by simp
  with run have get:
    "request example_host example_client example_world ''items'' ''GET'' ?d
     = (example_world\<lparr>sent := sent example_world @
          [\<lparr>req_url = ''http://hook.dev/items?%7B%22id%22%3A7%7D'', req_method = ''GET'',
            req_headers = (getHeaders example_client example_world)
              (''Content-Type'' \<mapsto> ''text/json''),
            req_body = None\<rparr>]\<rparr>, Inr (Promise []))"
    by (simp add: example_endpoint)
  from t [where c = example_client and verb = "''DELETE''" and data = ?untyped
      and segments = "''files''"] on
  have "request example_host example_client example_world ''files'' ''DELETE'' ?untyped =
      (case getPayload example_host ''POST'' ?untyped of
         Inl e \<Rightarrow> (example_world, Inl e)
       | Inr payload \<Rightarrow>
           (example_world\<lparr>sent := sent example_world @
               [\<lparr>req_url = endpoint example_client @ ''files'', req_method = ''POST'',
                 req_headers = (getHeaders example_client example_world)
                   (''Content-Type'' \<mapsto> ''text/json'', ''X-HTTP-Method-Override'' \<mapsto> ''DELETE''),
                 req_body = Some payload\<rparr>]\<rparr>,
            Inr (Promise [])))"
    by blast
  then have raised:
    "request example_host example_client example_world ''files'' ''DELETE'' ?untyped
     = (example_world, Inl TypeError)"
    by (simp add: enc_untyped)
  from t [where c = example_client and verb = "''GET''" and data = ?d and segments = "''items''"]
  have plain: "getHeaders example_client example_world ''X-HTTP-Method-Override'' = None"
    by blast
  from rewritten unchanged post get raised plain show ?thesis
    by (intro conjI)
qed

end
